theory Spec2Isabelle
  imports Main
begin

section \<open>JavaScript strings\<close>

text \<open>
  Strings are byte lists (UTF-8); the only non-ASCII character the pipeline writes is the
  em dash of its verification notes. The string methods of the platform that the source
  calls are written out: \<^verbatim>\<open>startsWith\<close>, \<^verbatim>\<open>includes\<close>, \<^verbatim>\<open>replace\<close> with a string
  pattern (first occurrence only), \<^verbatim>\<open>trim\<close>, \<^verbatim>\<open>join\<close>, and the decimal rendering of a
  number inside a template literal.
\<close>

definition em_dash :: string where
  "em_dash = [CHR 0xE2, CHR 0x80, CHR 0x94]"

definition newline :: string where
  "newline = [CHR 0x0A]"

definition str_startsWith :: "string \<Rightarrow> string \<Rightarrow> bool" where
  "str_startsWith s p = (take (length p) s = p)"

fun str_includes :: "string \<Rightarrow> string \<Rightarrow> bool" where
  "str_includes [] p = (p = [])"
| "str_includes (c # cs) p = (str_startsWith (c # cs) p \<or> str_includes cs p)"

fun str_replace :: "string \<Rightarrow> string \<Rightarrow> string \<Rightarrow> string" where
  "str_replace [] pat rep = (if pat = [] then rep else [])"
| "str_replace (c # cs) pat rep =
     (if str_startsWith (c # cs) pat then rep @ drop (length pat) (c # cs)
      else c # str_replace cs pat rep)"

text \<open>
  \<^verbatim>\<open>trim\<close> removes white space and line terminators from both ends: the six ASCII ones
  and U+00A0, U+1680, U+2000 to U+200A, U+2028, U+2029, U+202F, U+205F, U+3000 and
  U+FEFF, here in their UTF-8 encodings.
\<close>

definition white_space :: "string list" where
  "white_space =
     [[CHR 0x09], [CHR 0x0A], [CHR 0x0B], [CHR 0x0C], [CHR 0x0D], [CHR 0x20],
      [CHR 0xC2, CHR 0xA0], [CHR 0xE1, CHR 0x9A, CHR 0x80],
      [CHR 0xE2, CHR 0x80, CHR 0x80], [CHR 0xE2, CHR 0x80, CHR 0x81],
      [CHR 0xE2, CHR 0x80, CHR 0x82], [CHR 0xE2, CHR 0x80, CHR 0x83],
      [CHR 0xE2, CHR 0x80, CHR 0x84], [CHR 0xE2, CHR 0x80, CHR 0x85],
      [CHR 0xE2, CHR 0x80, CHR 0x86], [CHR 0xE2, CHR 0x80, CHR 0x87],
      [CHR 0xE2, CHR 0x80, CHR 0x88], [CHR 0xE2, CHR 0x80, CHR 0x89],
      [CHR 0xE2, CHR 0x80, CHR 0x8A], [CHR 0xE2, CHR 0x80, CHR 0xA8],
      [CHR 0xE2, CHR 0x80, CHR 0xA9], [CHR 0xE2, CHR 0x80, CHR 0xAF],
      [CHR 0xE2, CHR 0x81, CHR 0x9F], [CHR 0xE3, CHR 0x80, CHR 0x80],
      [CHR 0xEF, CHR 0xBB, CHR 0xBF]]"

fun leading_space :: "string list \<Rightarrow> string \<Rightarrow> nat" where
  "leading_space [] s = 0"
| "leading_space (w # ws) s =
     (if s \<noteq> [] \<and> take (length w) s = w then length w else leading_space ws s)"

function trim_start :: "string list \<Rightarrow> string \<Rightarrow> string" where
  "trim_start ws s =
     (if leading_space ws s = 0 then s else trim_start ws (drop (leading_space ws s) s))"
  by pat_completeness auto
termination
proof (relation "measure (\<lambda>(ws, s). length s)")
  show "wf (measure (\<lambda>(ws, s). length s))"
    by simp
next
  fix ws :: "string list" and s :: string
  assume "leading_space ws s \<noteq> 0"
  moreover have "leading_space ws s \<noteq> 0 \<Longrightarrow> s \<noteq> []"
    by (induction ws) (auto split: if_splits)
  ultimately show "((ws, drop (leading_space ws s) s), (ws, s)) \<in> measure (\<lambda>(ws, s). length s)"
    by (cases s) auto
qed

declare trim_start.simps [simp del]

definition str_trim :: "string \<Rightarrow> string" where
  "str_trim s = rev (trim_start (map rev white_space) (rev (trim_start white_space s)))"

fun str_join :: "string list \<Rightarrow> string \<Rightarrow> string" where
  "str_join [] sep = []"
| "str_join [x] sep = x"
| "str_join (x # y # ys) sep = x @ sep @ str_join (y # ys) sep"

definition digit_char :: "nat \<Rightarrow> char" where
  "digit_char d = ''0123456789'' ! d"

function string_of_nat :: "nat \<Rightarrow> string" where
  "string_of_nat n =
     (if n < 10 then [digit_char n] else string_of_nat (n div 10) @ [digit_char (n mod 10)])"
  by pat_completeness auto
termination
  by (relation "measure id") auto

declare string_of_nat.simps [simp del]

text \<open>
  \<^verbatim>\<open>x || d\<close> on a field of an upstream search result, which is a string or absent: the
  default is taken when the field is undefined and when it is the empty string.
\<close>

definition truthy :: "string option \<Rightarrow> bool" where
  "truthy v = (case v of None \<Rightarrow> False | Some s \<Rightarrow> s \<noteq> [])"

definition or_default :: "string option \<Rightarrow> string \<Rightarrow> string" where
  "or_default v d = (case v of None \<Rightarrow> d | Some s \<Rightarrow> if s = [] then d else s)"

section \<open>The platform: URL parsing and fetch\<close>

text \<open>
  \<^verbatim>\<open>new URL(s)\<close> belongs to the platform, so the parser is a parameter of every function
  that calls it: \<open>None\<close> when the constructor throws, otherwise the \<^verbatim>\<open>hostname\<close> and
  \<^verbatim>\<open>pathname\<close> it exposes. \<open>URL_table\<close> fixes the parser on finitely many strings, for
  evaluating the model at concrete inputs.
\<close>

record parsed_url =
  hostname :: string
  pathname :: string

type_synonym url_parser = "string \<Rightarrow> parsed_url option"

definition URL_table :: "(string \<times> string \<times> string) list \<Rightarrow> url_parser" where
  "URL_table tbl s =
     (case map_of tbl s of
        None \<Rightarrow> None
      | Some (h, p) \<Rightarrow> Some \<lparr>hostname = h, pathname = p\<rparr>)"

text \<open>
  \<^verbatim>\<open>fetch\<close> acts on the network: it takes the network's state and returns the next one.
  A call resolves with a response or rejects (transport failure, abort by the timeout
  signal, a URL that cannot be requested).
\<close>

datatype http_method = HEAD | GET

record request =
  req_method :: http_method
  abort_after_ms :: nat
  headers :: "(string \<times> string) list"
  redirect :: string

record http_response =
  ok :: bool
  status :: nat

datatype fetch_result = Resolved http_response | Rejected

type_synonym 'n fetcher = "string \<Rightarrow> request \<Rightarrow> 'n \<Rightarrow> fetch_result \<times> 'n"

text \<open>A call either returns a value or throws; an \<^verbatim>\<open>await\<close> passes a throw on.\<close>

datatype 'a outcome = Returned 'a | Thrown

section \<open>verifyUrl and extractDomain\<close>

definition head_request :: request where
  "head_request =
     \<lparr>req_method = HEAD, abort_after_ms = 5000,
      headers = [(''User-Agent'', ''CivicSentinel/3.0 (community watchdog)'')],
      redirect = ''follow''\<rparr>"

definition range_request :: request where
  "range_request =
     \<lparr>req_method = GET, abort_after_ms = 5000,
      headers = [(''User-Agent'', ''CivicSentinel/3.0''), (''Range'', ''bytes=0-0'')],
      redirect = ''follow''\<rparr>"

text \<open>
  The outer \<^verbatim>\<open>try\<close> holds the HEAD request and its status test; its \<^verbatim>\<open>catch\<close> holds an
  inner \<^verbatim>\<open>try\<close> with the ranged GET, whose own \<^verbatim>\<open>catch\<close> returns false.
\<close>

definition verifyUrl :: "'n fetcher \<Rightarrow> string \<Rightarrow> 'n \<Rightarrow> bool outcome \<times> 'n" where
  "verifyUrl fetch u n =
     (case fetch u head_request n of
        (Resolved r, n1) \<Rightarrow> (Returned (ok r \<or> status r = 403 \<or> status r = 405), n1)
      | (Rejected, n1) \<Rightarrow>
          (case fetch u range_request n1 of
             (Resolved r2, n2) \<Rightarrow> (Returned (ok r2 \<or> status r2 = 206 \<or> status r2 = 403), n2)
           | (Rejected, n2) \<Rightarrow> (Returned False, n2)))"

definition extractDomain :: "url_parser \<Rightarrow> string \<Rightarrow> string" where
  "extractDomain URL u =
     (case URL u of
        Some p \<Rightarrow> str_replace (hostname p) ''www.'' []
      | None \<Rightarrow> ''Unknown'')"

section \<open>Citations\<close>

text \<open>
  The content blocks of the upstream response. A block has a type tag, a text (text
  blocks) and a content (tool-result blocks: the nested result items, \<open>None\<close> when the
  field is absent). A nested item's fields are strings or absent.
\<close>

record search_result =
  sr_type :: string
  sr_title :: "string option"
  sr_url :: "string option"
  sr_encrypted_content :: "string option"
  sr_page_snippet :: "string option"
  sr_page_age :: "string option"

record block =
  block_type :: string
  block_text :: string
  block_content :: "search_result list option"

record citation =
  cit_title :: string
  cit_url :: string
  cit_snippet :: string
  cit_source :: string
  cit_publishedDate :: string

definition citation_of :: "url_parser \<Rightarrow> search_result \<Rightarrow> citation" where
  "citation_of URL item =
     \<lparr>cit_title = or_default (sr_title item) [],
      cit_url = or_default (sr_url item) [],
      cit_snippet =
        (if truthy (sr_encrypted_content item) then ''[Content at source]''
         else or_default (sr_page_snippet item) []),
      cit_source = extractDomain URL (or_default (sr_url item) []),
      cit_publishedDate = or_default (sr_page_age item) []\<rparr>"

fun extractCitations :: "url_parser \<Rightarrow> block list \<Rightarrow> citation list" where
  "extractCitations URL [] = []"
| "extractCitations URL (b # content) =
     (if block_type b = ''web_search_tool_result'' then
        (case block_content b of
           Some results \<Rightarrow>
             map (citation_of URL) (filter (\<lambda>item. sr_type item = ''web_search_result'') results)
         | None \<Rightarrow> [])
      else []) @ extractCitations URL content"

section \<open>JavaScript values\<close>

text \<open>
  What \<^verbatim>\<open>JSON.parse\<close> returns, and \<^verbatim>\<open>undefined\<close> for a property that is not there. An
  object is the list of its own properties; the first entry of a name is its value. The
  handler never computes with a number: it tests whether the number is truthy and it
  writes the number into a string, so \<open>JNum nz s\<close> is a number by these two observations,
  \<open>nz\<close> false for zero and \<open>s\<close> the string that \<^verbatim>\<open>ToString\<close> gives it (12345 is
  \<open>JNum True ''12345''\<close>).

  A value is falsy when it is \<^verbatim>\<open>undefined\<close>, \<^verbatim>\<open>null\<close>, \<^verbatim>\<open>false\<close>, zero or the empty
  string. Reading a property of \<^verbatim>\<open>undefined\<close> or \<^verbatim>\<open>null\<close> throws a TypeError; \<open>js_prop\<close>
  is the value read otherwise, for the eight property names the handler reads (none of
  them is a property of a string, a number, a boolean or an array).
\<close>

datatype jsval =
  JUndefined | JNull | JBool bool | JNum bool string | JStr string | JArr "jsval list"
  | JObj "(string \<times> jsval) list"

fun js_truthy :: "jsval \<Rightarrow> bool" where
  "js_truthy JUndefined = False"
| "js_truthy JNull = False"
| "js_truthy (JBool b) = b"
| "js_truthy (JNum nz s) = nz"
| "js_truthy (JStr s) = (s \<noteq> [])"
| "js_truthy (JArr xs) = True"
| "js_truthy (JObj kvs) = True"

definition js_or :: "jsval \<Rightarrow> jsval \<Rightarrow> jsval" where
  "js_or v d = (if js_truthy v then v else d)"

fun nullish :: "jsval \<Rightarrow> bool" where
  "nullish JUndefined = True"
| "nullish JNull = True"
| "nullish v = False"

fun js_prop :: "jsval \<Rightarrow> string \<Rightarrow> jsval" where
  "js_prop (JObj kvs) k = (case map_of kvs k of Some v \<Rightarrow> v | None \<Rightarrow> JUndefined)"
| "js_prop v k = JUndefined"

text \<open>
  \<open>js_to_string\<close> is the conversion a template literal applies, \<open>None\<close> when it throws. An
  object is converted by its \<^verbatim>\<open>toString\<close> method: the inherited one answers
  \<^verbatim>\<open>[object Object]\<close>; an own property of that name, which in a parsed value is never a
  function, hides it, the inherited \<^verbatim>\<open>valueOf\<close> then returns the object itself, and the
  conversion throws a TypeError. An array joins the conversions of its elements with
  commas, \<^verbatim>\<open>null\<close> giving the empty string.
\<close>

fun js_to_string :: "jsval \<Rightarrow> string option" where
  "js_to_string JUndefined = Some ''undefined''"
| "js_to_string JNull = Some ''null''"
| "js_to_string (JBool b) = Some (if b then ''true'' else ''false'')"
| "js_to_string (JNum nz s) = Some s"
| "js_to_string (JStr s) = Some s"
| "js_to_string (JArr xs) =
     map_option (\<lambda>ss. str_join ss '','')
       (those (map (\<lambda>x. if nullish x then Some [] else js_to_string x) xs))"
| "js_to_string (JObj kvs) =
     (case map_of kvs ''toString'' of
        None \<Rightarrow> Some ''[object Object]''
      | Some v \<Rightarrow> None)"

section \<open>Claims\<close>

text \<open>
  A candidate is one element of the array parsed from the model's text: any value. An item
  is the claim object the handler builds from it; its fields hold what the candidate
  held, of whatever type, or the default. The object literal reads eight properties of
  the candidate, so it throws when the candidate is \<^verbatim>\<open>null\<close>: the loop tests \<open>nullish\<close>
  before it builds the item with \<open>new_item\<close>.
  \<^verbatim>\<open>Date.now()\<close> is read once per item, while the item is built; \<open>Date_now i\<close> is the
  reading for the item of index \<open>i\<close>.
\<close>

record item =
  item_id :: string
  title :: jsval
  summary :: jsval
  source :: jsval
  url :: jsval
  timestamp :: jsval
  category :: jsval
  severity :: jsval
  location :: jsval
  verified :: bool
  verificationNote :: string

definition make_id :: "string \<Rightarrow> nat \<Rightarrow> nat \<Rightarrow> string" where
  "make_id tag t i = tag @ string_of_nat t @ ''_'' @ string_of_nat i"

definition new_item :: "(nat \<Rightarrow> nat) \<Rightarrow> string \<Rightarrow> nat \<Rightarrow> jsval \<Rightarrow> item" where
  "new_item Date_now city i it =
     \<lparr>item_id = make_id ''l'' (Date_now i) i,
      title = js_or (js_prop it ''title'') (JStr []),
      summary = js_or (js_prop it ''summary'') (JStr []),
      source = js_or (js_prop it ''source'') (JStr ''Unknown''),
      url = js_or (js_prop it ''url'') (JStr []),
      timestamp = js_or (js_prop it ''timestamp'') (JStr ''Recent''),
      category = js_or (js_prop it ''category'') (JStr ''other''),
      severity = js_or (js_prop it ''severity'') (JStr ''medium''),
      location = js_or (js_prop it ''location'') (JStr city),
      verified = False,
      verificationNote = []\<rparr>"

definition citation_item :: "(nat \<Rightarrow> nat) \<Rightarrow> string \<Rightarrow> nat \<Rightarrow> citation \<Rightarrow> item" where
  "citation_item Date_now city i c =
     \<lparr>item_id = make_id ''v'' (Date_now i) i,
      title = JStr (cit_title c),
      summary =
        JStr (if cit_snippet c = [] then ''Click source link to read the original article.''
              else cit_snippet c),
      source = JStr (cit_source c),
      url = JStr (cit_url c),
      timestamp = JStr (if cit_publishedDate c = [] then ''Recent'' else cit_publishedDate c),
      category = JStr ''other'',
      severity = JStr ''medium'',
      location = JStr city,
      verified = True,
      verificationNote = ''Direct from web search results''\<rparr>"

text \<open>The five verification notes, as the source writes them.\<close>

definition note_no_url :: string where
  "note_no_url = ''REJECTED '' @ em_dash @ '' No valid URL''"

definition note_confirmed :: string where
  "note_confirmed = ''Confirmed '' @ em_dash @ '' URL found in web search results''"

definition note_live_known :: string where
  "note_live_known = ''Verified '' @ em_dash @ '' URL responds (domain from search results)''"

definition note_dead :: string where
  "note_dead = ''REJECTED '' @ em_dash @ '' URL does not respond''"

definition note_live :: string where
  "note_live = ''Verified '' @ em_dash @ '' URL responds''"

definition note_fabricated :: string where
  "note_fabricated = ''REJECTED '' @ em_dash @ '' URL does not exist (likely fabricated)''"

section \<open>Cross-reference\<close>

text \<open>
  \<^verbatim>\<open>realUrlSet\<close>: for every citation the key hostname + pathname, when its url parses, and
  the url itself. \<^verbatim>\<open>realDomainSet\<close>: the citations' source domains.
\<close>

fun build_realUrlSet :: "url_parser \<Rightarrow> citation list \<Rightarrow> string set \<Rightarrow> string set" where
  "build_realUrlSet URL [] realUrlSet = realUrlSet"
| "build_realUrlSet URL (c # cs) realUrlSet =
     build_realUrlSet URL cs
       (insert (cit_url c)
          (case URL (cit_url c) of
             Some p \<Rightarrow> insert (hostname p @ pathname p) realUrlSet
           | None \<Rightarrow> realUrlSet))"

definition build_realDomainSet :: "citation list \<Rightarrow> string set" where
  "build_realDomainSet realCitations = set (map cit_source realCitations)"

text \<open>
  One pass of the \<^verbatim>\<open>for\<close> loop over \<^verbatim>\<open>parsedItems\<close>: the item is built, then pushed on
  \<^verbatim>\<open>verifiedItems\<close> or on \<^verbatim>\<open>rejectedItems\<close>. The probe is the loop's parameter
  \<open>verify\<close>; the handler passes \<open>verifyUrl fetch\<close>.
\<close>

definition loop_body ::
  "url_parser \<Rightarrow> (nat \<Rightarrow> nat) \<Rightarrow> (string \<Rightarrow> 'n \<Rightarrow> bool outcome \<times> 'n) \<Rightarrow>
   string set \<Rightarrow> string set \<Rightarrow> string \<Rightarrow> nat \<Rightarrow> jsval \<Rightarrow>
   item list \<times> item list \<Rightarrow> 'n \<Rightarrow> (item list \<times> item list) outcome \<times> 'n" where
  "loop_body URL Date_now verify realUrlSet realDomainSet city i it acc n =
     (let verifiedItems = fst acc; rejectedItems = snd acc
      in
        if nullish it then (Thrown, n)
        else
          let item = new_item Date_now city i it
          in
            if \<not> js_truthy (url item) then
              (Returned (verifiedItems, rejectedItems @ [item\<lparr>verificationNote := note_no_url\<rparr>]),
               n)
            else
              case url item of
                JStr u \<Rightarrow>
                  if \<not> str_startsWith u ''http'' then
                    (Returned
                       (verifiedItems, rejectedItems @ [item\<lparr>verificationNote := note_no_url\<rparr>]),
                     n)
                  else
                    let urlKey = (case URL u of
                                    Some p \<Rightarrow> hostname p @ pathname p
                                  | None \<Rightarrow> u)
                    in
                      if urlKey \<in> realUrlSet \<or> u \<in> realUrlSet then
                        (Returned
                           (verifiedItems @
                              [item\<lparr>verified := True, verificationNote := note_confirmed\<rparr>],
                            rejectedItems), n)
                      else if extractDomain URL u \<in> realDomainSet then
                        (case verify u n of
                           (Returned exists, n') \<Rightarrow>
                             if exists then
                               (Returned
                                  (verifiedItems @
                                     [item\<lparr>verified := True,
                                           verificationNote := note_live_known\<rparr>],
                                   rejectedItems), n')
                             else
                               (Returned
                                  (verifiedItems,
                                   rejectedItems @ [item\<lparr>verificationNote := note_dead\<rparr>]), n')
                         | (Thrown, n') \<Rightarrow> (Thrown, n'))
                      else
                        (case verify u n of
                           (Returned exists, n') \<Rightarrow>
                             if exists then
                               (Returned
                                  (verifiedItems @
                                     [item\<lparr>verified := True, verificationNote := note_live\<rparr>],
                                   rejectedItems), n')
                             else
                               (Returned
                                  (verifiedItems,
                                   rejectedItems @
                                     [item\<lparr>verificationNote := note_fabricated\<rparr>]), n')
                         | (Thrown, n') \<Rightarrow> (Thrown, n'))
              | _ \<Rightarrow> (Thrown, n))"

fun classify_loop ::
  "url_parser \<Rightarrow> (nat \<Rightarrow> nat) \<Rightarrow> (string \<Rightarrow> 'n \<Rightarrow> bool outcome \<times> 'n) \<Rightarrow>
   string set \<Rightarrow> string set \<Rightarrow> string \<Rightarrow> nat \<Rightarrow> jsval list \<Rightarrow>
   item list \<times> item list \<Rightarrow> 'n \<Rightarrow> (item list \<times> item list) outcome \<times> 'n" where
  "classify_loop URL Date_now verify realUrlSet realDomainSet city i [] acc n =
     (Returned acc, n)"
| "classify_loop URL Date_now verify realUrlSet realDomainSet city i (it # rest) acc n =
     (case loop_body URL Date_now verify realUrlSet realDomainSet city i it acc n of
        (Returned acc', n') \<Rightarrow>
          classify_loop URL Date_now verify realUrlSet realDomainSet city (Suc i) rest acc' n'
      | (Thrown, n') \<Rightarrow> (Thrown, n'))"

text \<open>
  The cross-reference of a parsed candidate list against the citations: both lookup
  sets, the loop from index 0 with both lists empty, and the counts of the response.
\<close>

record search_stats =
  totalFound :: nat
  stats_verified :: nat
  stats_rejected :: nat

definition cross_reference ::
  "url_parser \<Rightarrow> (nat \<Rightarrow> nat) \<Rightarrow> (string \<Rightarrow> 'n \<Rightarrow> bool outcome \<times> 'n) \<Rightarrow> string \<Rightarrow>
   citation list \<Rightarrow> jsval list \<Rightarrow> 'n \<Rightarrow>
   (item list \<times> item list \<times> search_stats) outcome \<times> 'n" where
  "cross_reference URL Date_now verify city realCitations parsedItems n =
     (let realUrlSet = build_realUrlSet URL realCitations {};
          realDomainSet = build_realDomainSet realCitations
      in
        case classify_loop URL Date_now verify realUrlSet realDomainSet city 0 parsedItems
               ([], []) n of
          (Returned (verifiedItems, rejectedItems), n') \<Rightarrow>
            (Returned
               (verifiedItems, rejectedItems,
                \<lparr>totalFound = length parsedItems,
                 stats_verified = length verifiedItems,
                 stats_rejected = length rejectedItems\<rparr>), n')
        | (Thrown, n') \<Rightarrow> (Thrown, n'))"

section \<open>The search handler, from the upstream content on\<close>

text \<open>
  The text of the model is cleaned of code fences and trimmed. The array is located by the
  regular expression \<^verbatim>\<open>/\[[\s\S]*\]/\<close>: from the first opening bracket to the last
  closing bracket after it. \<^verbatim>\<open>JSON.parse\<close> is a parameter (\<open>None\<close> when it throws).
  \<open>api_search\<close> is the handler from \<^verbatim>\<open>data.content\<close> on: the rate limit, the request
  checks and the upstream call come before it and are not part of it. The \<^verbatim>\<open>catch\<close> of
  the inner \<^verbatim>\<open>try\<close> answers with the empty response, whether \<^verbatim>\<open>JSON.parse\<close>, the loop or
  the writing of the rejected section threw.
\<close>

fun strip_fences :: "string \<Rightarrow> string" where
  "strip_fences [] = []"
| "strip_fences (c # cs) =
     (if str_startsWith (c # cs) ''```json'' then strip_fences (drop 6 cs)
      else if str_startsWith (c # cs) ''```'' then strip_fences (drop 2 cs)
      else c # strip_fences cs)"

definition array_match :: "string \<Rightarrow> string option" where
  "array_match s =
     (let from_open = dropWhile (\<lambda>c. c \<noteq> CHR ''['') s
      in if CHR '']'' \<in> set from_open
         then Some (rev (dropWhile (\<lambda>c. c \<noteq> CHR '']'') (rev from_open)))
         else None)"

definition no_results_token :: string where
  "no_results_token = [CHR 0x22] @ ''no_results'' @ [CHR 0x22]"

record response =
  items :: "item list"
  rawResponse :: string
  verifiedSources :: "citation list"
  stats :: search_stats

definition citation_lines :: "citation list \<Rightarrow> string list" where
  "citation_lines realCitations =
     map (\<lambda>(i, c).
            string_of_nat (i + 1) @ ''. '' @ cit_title c @ newline @ ''   '' @ cit_url c @
            newline @ ''   '' @ cit_source c @ '' | '' @
            (if cit_publishedDate c = [] then ''Date unknown'' else cit_publishedDate c))
         (enumerate 0 realCitations)"

definition initial_rawParts :: "block list \<Rightarrow> citation list \<Rightarrow> string list \<Rightarrow> string list" where
  "initial_rawParts searchParts realCitations textParts =
     (if length searchParts > 0
      then [''[Web searches performed: '' @ string_of_nat (length searchParts) @ '']'']
      else []) @
     (if length realCitations > 0
      then [''[Source URLs found: '' @ string_of_nat (length realCitations) @ '']'']
      else []) @
     textParts @
     (if length realCitations > 0
      then (newline @ ''--- VERIFIED SOURCE URLS ---'') # citation_lines realCitations
      else [])"

text \<open>
  The section of the transcript about the rejected items. \<^verbatim>\<open>rawParts\<close> is an array that
  the handler extends in place, so what was pushed before a conversion threw is in the
  transcript of the answer that the \<^verbatim>\<open>catch\<close> gives: the array is passed on in both cases.
\<close>

definition rejected_line :: "item \<Rightarrow> string option" where
  "rejected_line r =
     (case js_to_string (title r) of
        None \<Rightarrow> None
      | Some t \<Rightarrow>
          (case js_to_string (url r) of
             None \<Rightarrow> None
           | Some u \<Rightarrow>
               Some ([CHR 0x22] @ t @ [CHR 0x22] @ '' '' @ em_dash @ '' '' @ verificationNote r @
                     newline @ ''   URL: '' @ u)))"

fun push_rejected :: "item list \<Rightarrow> string list \<Rightarrow> unit outcome \<times> string list" where
  "push_rejected [] rawParts = (Returned (), rawParts)"
| "push_rejected (r # rs) rawParts =
     (case rejected_line r of
        None \<Rightarrow> (Thrown, rawParts)
      | Some l \<Rightarrow> push_rejected rs (rawParts @ [l]))"

definition rejected_section :: "item list \<Rightarrow> string list \<Rightarrow> unit outcome \<times> string list" where
  "rejected_section rejectedItems rawParts =
     (if length rejectedItems > 0
      then push_rejected rejectedItems
             (rawParts @ [newline @ ''--- REJECTED (FAILED VERIFICATION) ---''])
      else (Returned (), rawParts))"

definition empty_response :: "string list \<Rightarrow> citation list \<Rightarrow> response" where
  "empty_response rawParts realCitations =
     \<lparr>items = [], rawResponse = str_join rawParts (newline @ newline),
      verifiedSources = realCitations,
      stats = \<lparr>totalFound = 0, stats_verified = 0, stats_rejected = 0\<rparr>\<rparr>"

definition citation_items :: "(nat \<Rightarrow> nat) \<Rightarrow> string \<Rightarrow> citation list \<Rightarrow> item list" where
  "citation_items Date_now city realCitations =
     map (\<lambda>(i, c). citation_item Date_now city i c)
         (enumerate 0 (filter (\<lambda>c. cit_url c \<noteq> [] \<and> cit_title c \<noteq> []) realCitations))"

definition api_search ::
  "url_parser \<Rightarrow> (nat \<Rightarrow> nat) \<Rightarrow> 'n fetcher \<Rightarrow> (string \<Rightarrow> jsval list option) \<Rightarrow>
   string \<Rightarrow> block list \<Rightarrow> 'n \<Rightarrow> response \<times> 'n" where
  "api_search URL Date_now fetch JSON_parse city allContent n =
     (let textParts = map block_text (filter (\<lambda>b. block_type b = ''text'') allContent);
          searchParts = filter (\<lambda>b. block_type b = ''web_search_tool_result'') allContent;
          realCitations = extractCitations URL allContent;
          rawParts = initial_rawParts searchParts realCitations textParts;
          fullText = str_join textParts newline;
          cleaned = str_trim (strip_fences fullText)
      in
        if str_includes cleaned no_results_token then
          (empty_response rawParts realCitations, n)
        else
          case array_match cleaned of
            None \<Rightarrow>
              if length realCitations > 0 then
                (let its = citation_items Date_now city realCitations
                 in (\<lparr>items = its, rawResponse = str_join rawParts (newline @ newline),
                      verifiedSources = realCitations,
                      stats = \<lparr>totalFound = length its, stats_verified = length its,
                               stats_rejected = 0\<rparr>\<rparr>, n))
              else (empty_response rawParts realCitations, n)
          | Some m \<Rightarrow>
              (case JSON_parse m of
                 None \<Rightarrow> (empty_response rawParts realCitations, n)
               | Some parsedItems \<Rightarrow>
                   (case cross_reference URL Date_now (verifyUrl fetch) city realCitations
                           parsedItems n of
                      (Returned (verifiedItems, rejectedItems, st), n') \<Rightarrow>
                        (case rejected_section rejectedItems rawParts of
                           (Returned u, rawParts') \<Rightarrow>
                             (\<lparr>items = verifiedItems,
                               rawResponse = str_join rawParts' (newline @ newline),
                               verifiedSources = realCitations,
                               stats = st\<rparr>, n')
                         | (Thrown, rawParts') \<Rightarrow> (empty_response rawParts' realCitations, n'))
                    | (Thrown, n') \<Rightarrow> (empty_response rawParts realCitations, n'))))"

section \<open>The cross-reference of version 2.0\<close>

text \<open>
  The earlier revision of the server has its own copies of the functions above. They are
  translated from that file; the probe is again the loop's parameter (the \<^verbatim>\<open>verifyUrl\<close>
  of that revision sends another User-Agent header and is otherwise the same).
\<close>

definition extractDomain_v2 :: "url_parser \<Rightarrow> string \<Rightarrow> string" where
  "extractDomain_v2 URL u =
     (case URL u of
        Some p \<Rightarrow> str_replace (hostname p) ''www.'' []
      | None \<Rightarrow> ''Unknown'')"

definition new_item_v2 :: "(nat \<Rightarrow> nat) \<Rightarrow> string \<Rightarrow> nat \<Rightarrow> jsval \<Rightarrow> item" where
  "new_item_v2 Date_now city i it =
     \<lparr>item_id = make_id ''l'' (Date_now i) i,
      title = js_or (js_prop it ''title'') (JStr []),
      summary = js_or (js_prop it ''summary'') (JStr []),
      source = js_or (js_prop it ''source'') (JStr ''Unknown''),
      url = js_or (js_prop it ''url'') (JStr []),
      timestamp = js_or (js_prop it ''timestamp'') (JStr ''Recent''),
      category = js_or (js_prop it ''category'') (JStr ''other''),
      severity = js_or (js_prop it ''severity'') (JStr ''medium''),
      location = js_or (js_prop it ''location'') (JStr city),
      verified = False,
      verificationNote = []\<rparr>"

fun build_realUrlSet_v2 :: "url_parser \<Rightarrow> citation list \<Rightarrow> string set \<Rightarrow> string set" where
  "build_realUrlSet_v2 URL [] realUrlSet = realUrlSet"
| "build_realUrlSet_v2 URL (c # cs) realUrlSet =
     build_realUrlSet_v2 URL cs
       (insert (cit_url c)
          (case URL (cit_url c) of
             Some p \<Rightarrow> insert (hostname p @ pathname p) realUrlSet
           | None \<Rightarrow> realUrlSet))"

definition loop_body_v2 ::
  "url_parser \<Rightarrow> (nat \<Rightarrow> nat) \<Rightarrow> (string \<Rightarrow> 'n \<Rightarrow> bool outcome \<times> 'n) \<Rightarrow>
   string set \<Rightarrow> string set \<Rightarrow> string \<Rightarrow> nat \<Rightarrow> jsval \<Rightarrow>
   item list \<times> item list \<Rightarrow> 'n \<Rightarrow> (item list \<times> item list) outcome \<times> 'n" where
  "loop_body_v2 URL Date_now verify realUrlSet realDomainSet city i it acc n =
     (let verifiedItems = fst acc; rejectedItems = snd acc
      in
        if nullish it then (Thrown, n)
        else
          let item = new_item_v2 Date_now city i it
          in
            if \<not> js_truthy (url item) then
              (Returned (verifiedItems, rejectedItems @ [item\<lparr>verificationNote := note_no_url\<rparr>]),
               n)
            else
              case url item of
                JStr u \<Rightarrow>
                  if \<not> str_startsWith u ''http'' then
                    (Returned
                       (verifiedItems, rejectedItems @ [item\<lparr>verificationNote := note_no_url\<rparr>]),
                     n)
                  else
                    let urlKey = (case URL u of
                                    Some p \<Rightarrow> hostname p @ pathname p
                                  | None \<Rightarrow> u)
                    in
                      if urlKey \<in> realUrlSet \<or> u \<in> realUrlSet then
                        (Returned
                           (verifiedItems @
                              [item\<lparr>verified := True, verificationNote := note_confirmed\<rparr>],
                            rejectedItems), n)
                      else if extractDomain_v2 URL u \<in> realDomainSet then
                        (case verify u n of
                           (Returned exists, n') \<Rightarrow>
                             if exists then
                               (Returned
                                  (verifiedItems @
                                     [item\<lparr>verified := True,
                                           verificationNote := note_live_known\<rparr>],
                                   rejectedItems), n')
                             else
                               (Returned
                                  (verifiedItems,
                                   rejectedItems @ [item\<lparr>verificationNote := note_dead\<rparr>]), n')
                         | (Thrown, n') \<Rightarrow> (Thrown, n'))
                      else
                        (case verify u n of
                           (Returned exists, n') \<Rightarrow>
                             if exists then
                               (Returned
                                  (verifiedItems @
                                     [item\<lparr>verified := True, verificationNote := note_live\<rparr>],
                                   rejectedItems), n')
                             else
                               (Returned
                                  (verifiedItems,
                                   rejectedItems @
                                     [item\<lparr>verificationNote := note_fabricated\<rparr>]), n')
                         | (Thrown, n') \<Rightarrow> (Thrown, n'))
              | _ \<Rightarrow> (Thrown, n))"

fun classify_loop_v2 ::
  "url_parser \<Rightarrow> (nat \<Rightarrow> nat) \<Rightarrow> (string \<Rightarrow> 'n \<Rightarrow> bool outcome \<times> 'n) \<Rightarrow>
   string set \<Rightarrow> string set \<Rightarrow> string \<Rightarrow> nat \<Rightarrow> jsval list \<Rightarrow>
   item list \<times> item list \<Rightarrow> 'n \<Rightarrow> (item list \<times> item list) outcome \<times> 'n" where
  "classify_loop_v2 URL Date_now verify realUrlSet realDomainSet city i [] acc n =
     (Returned acc, n)"
| "classify_loop_v2 URL Date_now verify realUrlSet realDomainSet city i (it # rest) acc n =
     (case loop_body_v2 URL Date_now verify realUrlSet realDomainSet city i it acc n of
        (Returned acc', n') \<Rightarrow>
          classify_loop_v2 URL Date_now verify realUrlSet realDomainSet city (Suc i) rest acc' n'
      | (Thrown, n') \<Rightarrow> (Thrown, n'))"

definition cross_reference_v2 ::
  "url_parser \<Rightarrow> (nat \<Rightarrow> nat) \<Rightarrow> (string \<Rightarrow> 'n \<Rightarrow> bool outcome \<times> 'n) \<Rightarrow> string \<Rightarrow>
   citation list \<Rightarrow> jsval list \<Rightarrow> 'n \<Rightarrow>
   (item list \<times> item list \<times> search_stats) outcome \<times> 'n" where
  "cross_reference_v2 URL Date_now verify city realCitations parsedItems n =
     (let realUrlSet = build_realUrlSet_v2 URL realCitations {};
          realDomainSet = set (map cit_source realCitations)
      in
        case classify_loop_v2 URL Date_now verify realUrlSet realDomainSet city 0 parsedItems
               ([], []) n of
          (Returned (verifiedItems, rejectedItems), n') \<Rightarrow>
            (Returned
               (verifiedItems, rejectedItems,
                \<lparr>totalFound = length parsedItems,
                 stats_verified = length verifiedItems,
                 stats_rejected = length rejectedItems\<rparr>), n')
        | (Thrown, n') \<Rightarrow> (Thrown, n'))"

section \<open>Auxiliary notions for the statements\<close>

text \<open>
  \<open>url_key\<close> is the key the loop computes for a claim: hostname + pathname, or the raw
  url when it does not parse. \<open>pushed x\<close> is the pair of lists after one pass of the loop
  that started from two empty lists and built \<open>x\<close>.
\<close>

definition url_key :: "url_parser \<Rightarrow> string \<Rightarrow> string" where
  "url_key URL u = (case URL u of Some p \<Rightarrow> hostname p @ pathname p | None \<Rightarrow> u)"

definition pushed :: "item \<Rightarrow> item list \<times> item list" where
  "pushed x = (if verified x then ([x], []) else ([], [x]))"

text \<open>
  \<open>claim_url\<close> is the url the item of a candidate gets. A candidate is \<open>well_formed\<close> when
  the pass of the loop over it cannot throw by itself: it is not \<^verbatim>\<open>null\<close>, and its url is
  falsy or a string. It is \<open>presentable\<close> when the title its item gets can be written into
  the transcript. \<open>parsed_candidates\<close> is the candidate list the handler
  cross-references, when it gets that far: the text has no no-results token, an array is
  found in it and \<^verbatim>\<open>JSON.parse\<close> accepts it.
\<close>

definition claim_url :: "jsval \<Rightarrow> jsval" where
  "claim_url it = js_or (js_prop it ''url'') (JStr [])"

fun is_string :: "jsval \<Rightarrow> bool" where
  "is_string (JStr s) = True"
| "is_string v = False"

definition well_formed :: "jsval \<Rightarrow> bool" where
  "well_formed it = (\<not> nullish it \<and> is_string (claim_url it))"

definition presentable :: "jsval \<Rightarrow> bool" where
  "presentable it = (js_to_string (js_or (js_prop it ''title'') (JStr [])) \<noteq> None)"

definition cleaned_text :: "block list \<Rightarrow> string" where
  "cleaned_text allContent =
     str_trim (strip_fences
       (str_join (map block_text (filter (\<lambda>b. block_type b = ''text'') allContent)) newline))"

definition parsed_candidates :: "(string \<Rightarrow> jsval list option) \<Rightarrow> block list \<Rightarrow> jsval list option" where
  "parsed_candidates JSON_parse allContent =
     (if str_includes (cleaned_text allContent) no_results_token then None
      else case array_match (cleaned_text allContent) of
             None \<Rightarrow> None
           | Some m \<Rightarrow> JSON_parse m)"

text \<open>
  The vocabulary the prompt asks the model to use for \<^verbatim>\<open>category\<close> and \<^verbatim>\<open>severity\<close>.
\<close>

definition category_vocabulary :: "string list" where
  "category_vocabulary =
     [''karst_sinkholes'', ''geothermal'', ''water_wells'', ''foundation'', ''construction'',
      ''environment'', ''infrastructure'', ''traffic'', ''waste'', ''education'', ''safety'',
      ''government'', ''housing'', ''water_sewer'', ''other'']"

definition severity_levels :: "string list" where
  "severity_levels = [''critical'', ''high'', ''medium'', ''low'']"

section \<open>Concrete inputs\<close>

text \<open>
  A network given by a table: a request answers as the table says for its url and verb
  and is rejected otherwise; the state is the log of the requests made.
\<close>

definition table_fetch ::
  "((string \<times> http_method) \<times> fetch_result) list \<Rightarrow> (string \<times> http_method) list fetcher" where
  "table_fetch tbl u req log =
     ((case map_of tbl (u, req_method req) of Some r \<Rightarrow> r | None \<Rightarrow> Rejected),
      log @ [(u, req_method req)])"

text \<open>A clock that stands still, and a text that \<^verbatim>\<open>JSON.parse\<close> never accepts.\<close>

definition scenario_clock :: "nat \<Rightarrow> nat" where
  "scenario_clock i = 0"

definition parse_fails :: "string \<Rightarrow> jsval list option" where
  "parse_fails s = None"

text \<open>
  The urls of the examples, with the hostname and pathname the URL constructor gives
  them. Every other string, the empty one and \<^verbatim>\<open>http://exa mple.com/a\<close> (a space in its
  host) among them, does not parse.
\<close>

definition scenario_URL :: url_parser where
  "scenario_URL =
     URL_table
       [(''https://example.com/a'', ''example.com'', ''/a''),
        (''https://example.com/b'', ''example.com'', ''/b''),
        (''httpx://example.com/a'', ''example.com'', ''/a''),
        (''ftp://example.com/a'', ''example.com'', ''/a''),
        (''https://awww.example.com/'', ''awww.example.com'', ''/''),
        (''https://elsewhere.example.org/x'', ''elsewhere.example.org'', ''/x'')]"

definition search_result_of :: "string option \<Rightarrow> string option \<Rightarrow> search_result" where
  "search_result_of t u =
     \<lparr>sr_type = ''web_search_result'', sr_title = t, sr_url = u,
      sr_encrypted_content = None, sr_page_snippet = None, sr_page_age = None\<rparr>"

definition search_block :: "search_result list \<Rightarrow> block" where
  "search_block results =
     \<lparr>block_type = ''web_search_tool_result'', block_text = [], block_content = Some results\<rparr>"

definition text_block :: "string \<Rightarrow> block" where
  "text_block s = \<lparr>block_type = ''text'', block_text = s, block_content = None\<rparr>"

definition candidate_of :: "string \<Rightarrow> string \<Rightarrow> jsval" where
  "candidate_of t u = JObj [(''title'', JStr t), (''url'', JStr u)]"

definition citations_A :: "citation list" where
  "citations_A =
     extractCitations scenario_URL
       [search_block [search_result_of (Some ''A'') (Some ''https://example.com/a'')]]"



definition text_labels :: string where
  \<open>text_labels =
     ''[{"title":"A","url":"https://example.com/a","category":"banana","severity":"extreme"}]''\<close>

definition candidate_labels :: jsval where
  "candidate_labels =
     JObj [(''title'', JStr ''A''), (''url'', JStr ''https://example.com/a''),
           (''category'', JStr ''banana''), (''severity'', JStr ''extreme'')]"

definition parse_labels :: "string \<Rightarrow> jsval list option" where
  "parse_labels s = (if s = text_labels then Some [candidate_labels] else None)"

definition text_no_results :: string where
  \<open>text_no_results = ''{"no_results": true, "searched_for": "sinkhole"}''\<close>

text \<open>
  Further inputs: a page on a domain no citation names, a url that does not parse, and
  the contents and candidate lists of the examples.
\<close>

definition result_A :: search_result where
  "result_A = search_result_of (Some ''A'') (Some ''https://example.com/a'')"


definition page_url :: string where
  "page_url = ''https://elsewhere.example.org/x''"

definition broken_url :: string where
  "broken_url = ''http://exa mple.com/a''"

definition no_network :: "(string \<times> http_method) list fetcher" where
  "no_network = table_fetch []"

definition content_narrated :: "block list" where
  "content_narrated =
     [search_block [result_A, search_result_of None (Some ''https://example.com/b'')],
      text_block ''Here is what I found.'']"

definition content_untitled :: "block list" where
  "content_untitled =
     [search_block [search_result_of None (Some ''https://example.com/a'')],
      text_block ''Here is what I found.'']"

definition content_no_results :: "block list" where
  "content_no_results = [search_block [result_A], text_block text_no_results]"

definition content_labels :: "block list" where
  "content_labels = [search_block [result_A], text_block text_labels]"

definition citations_broken :: "citation list" where
  "citations_broken =
     extractCitations scenario_URL [search_block [search_result_of (Some ''C'') (Some broken_url)]]"

definition content_no_url :: "block list" where
  "content_no_url = [search_block [search_result_of (Some ''Untitled'') None]]"

definition citation_A :: citation where
  "citation_A =
     \<lparr>cit_title = ''A'', cit_url = ''https://example.com/a'', cit_snippet = [],
      cit_source = ''example.com'', cit_publishedDate = []\<rparr>"

definition candidates_ABX :: "jsval list" where
  "candidates_ABX =
     [candidate_of ''A'' ''https://example.com/a'', candidate_of ''B'' [],
      candidate_of ''X'' page_url]"












section \<open>Lemmas about the loop and the handler\<close>

lemma verifyUrl_returns: "\<exists>b n'. verifyUrl fetch u n = (Returned b, n')"
  by (auto simp: verifyUrl_def split: prod.splits fetch_result.splits)

lemma new_item_plain [simp]:
  "verified (new_item Date_now city i it) = False"
  "verificationNote (new_item Date_now city i it) = []"
  "url (new_item Date_now city i it) = claim_url it"
  "category (new_item Date_now city i it) = js_or (js_prop it ''category'') (JStr ''other'')"
  "severity (new_item Date_now city i it) = js_or (js_prop it ''severity'') (JStr ''medium'')"
  by (simp_all add: new_item_def claim_url_def)

lemma claim_url_falsy: "\<not> js_truthy (claim_url it) \<longleftrightarrow> claim_url it = JStr []"
  by (cases "js_truthy (js_prop it ''url'')") (auto simp: claim_url_def js_or_def)

lemma loop_body_acc:
  "loop_body URL Date_now verify U D city i it acc n =
     (case loop_body URL Date_now verify U D city i it ([], []) n of
        (Returned vr, n') \<Rightarrow> (Returned (fst acc @ fst vr, snd acc @ snd vr), n')
      | (Thrown, n') \<Rightarrow> (Thrown, n'))"
  by (simp add: loop_body_def Let_def split: prod.splits outcome.splits jsval.splits)



lemma loop_body_nullish:
  assumes "nullish it"
  shows "loop_body URL Date_now verify U D city i it acc n = (Thrown, n)"
  using assms by (simp add: loop_body_def)

lemma loop_body_not_string:
  assumes "\<not> nullish it" and "\<not> is_string (claim_url it)"
  shows "loop_body URL Date_now verify U D city i it acc n = (Thrown, n)"
proof -
  from assms(2) have "claim_url it \<noteq> JStr []" by auto
  then have t: "js_truthy (claim_url it)"
    using claim_url_falsy[of it] by blast
  show ?thesis
    using assms t by (cases "claim_url it") (simp_all add: loop_body_def)
qed

lemma loop_body_throws:
  assumes "\<not> well_formed it"
  shows "loop_body URL Date_now verify U D city i it acc n = (Thrown, n)"
  using assms loop_body_nullish loop_body_not_string
  by (cases "nullish it") (simp_all add: well_formed_def)

lemma loop_body_no_url:
  assumes "\<not> nullish it" and "claim_url it = JStr u"
    and "u = [] \<or> \<not> str_startsWith u ''http''"
  shows "loop_body URL Date_now verify U D city i it acc n =
           (Returned (fst acc, snd acc @ [(new_item Date_now city i it)\<lparr>verificationNote := note_no_url\<rparr>]), n)"
  using assms by (auto simp: loop_body_def Let_def)

lemma loop_body_confirmed:
  assumes "\<not> nullish it" and "claim_url it = JStr u"
    and "u \<noteq> []" "str_startsWith u ''http''"
    and "url_key URL u \<in> U \<or> u \<in> U"
  shows "loop_body URL Date_now verify U D city i it acc n =
           (Returned (fst acc @ [(new_item Date_now city i it)\<lparr>verified := True, verificationNote := note_confirmed\<rparr>], snd acc), n)"
  using assms by (auto simp: loop_body_def Let_def url_key_def split: option.splits)

lemma loop_body_known_domain:
  assumes "\<not> nullish it" and "claim_url it = JStr u"
    and "u \<noteq> []" "str_startsWith u ''http''"
    and "url_key URL u \<notin> U" "u \<notin> U"
    and "extractDomain URL u \<in> D"
    and "verify u n = (Returned b, n')"
  shows "loop_body URL Date_now verify U D city i it acc n =
           (if b then (Returned (fst acc @ [(new_item Date_now city i it)\<lparr>verified := True, verificationNote := note_live_known\<rparr>], snd acc), n')
            else (Returned (fst acc, snd acc @ [(new_item Date_now city i it)\<lparr>verificationNote := note_dead\<rparr>]), n'))"
  using assms by (auto simp: loop_body_def Let_def url_key_def split: option.splits)

lemma loop_body_unknown_domain:
  assumes "\<not> nullish it" and "claim_url it = JStr u"
    and "u \<noteq> []" "str_startsWith u ''http''"
    and "url_key URL u \<notin> U" "u \<notin> U"
    and "extractDomain URL u \<notin> D"
    and "verify u n = (Returned b, n')"
  shows "loop_body URL Date_now verify U D city i it acc n =
           (if b then (Returned (fst acc @ [(new_item Date_now city i it)\<lparr>verified := True, verificationNote := note_live\<rparr>], snd acc), n')
            else (Returned (fst acc, snd acc @ [(new_item Date_now city i it)\<lparr>verificationNote := note_fabricated\<rparr>]), n'))"
  using assms by (auto simp: loop_body_def Let_def url_key_def split: option.splits)

lemma well_formed_url:
  assumes "well_formed it"
  obtains u where "\<not> nullish it" "claim_url it = JStr u"
  using assms by (cases "claim_url it") (auto simp: well_formed_def)

lemma loop_body_single:
  assumes tot: "\<And>u m. \<exists>b m'. verify u m = (Returned b, m')"
    and wf: "well_formed it"
  shows "\<exists>x n'. loop_body URL Date_now verify U D city i it ([], []) n = (Returned (pushed x), n') \<and>
           x = (new_item Date_now city i it)\<lparr>verified := verified x, verificationNote := verificationNote x\<rparr> \<and>
           (if verified x then verificationNote x \<in> {note_confirmed, note_live_known, note_live}
            else verificationNote x \<in> {note_no_url, note_dead, note_fabricated})"
proof -
  from wf obtain u where nn: "\<not> nullish it" and cu: "claim_url it = JStr u"
    by (rule well_formed_url)
  let ?item = "new_item Date_now city i it"
  obtain b m' where v: "verify u n = (Returned b, m')"
    using tot by blast
  consider (bad) "u = [] \<or> \<not> str_startsWith u ''http''"
    | (conf) "u \<noteq> []" "str_startsWith u ''http''" "url_key URL u \<in> U \<or> u \<in> U"
    | (known) "u \<noteq> []" "str_startsWith u ''http''" "url_key URL u \<notin> U" "u \<notin> U"
        "extractDomain URL u \<in> D"
    | (unknown) "u \<noteq> []" "str_startsWith u ''http''" "url_key URL u \<notin> U" "u \<notin> U"
        "extractDomain URL u \<notin> D"
    by blast
  then show ?thesis
  proof cases
    case bad
    show ?thesis
      by (rule exI[of _ "?item\<lparr>verificationNote := note_no_url\<rparr>"], rule exI[of _ n])
        (simp add: loop_body_no_url[OF nn cu bad] pushed_def)
  next
    case conf
    show ?thesis
      by (rule exI[of _ "?item\<lparr>verified := True, verificationNote := note_confirmed\<rparr>"], rule exI[of _ n])
        (simp add: loop_body_confirmed[OF nn cu conf] pushed_def)
  next
    case known
    show ?thesis
    proof (cases b)
      case True
      show ?thesis
        by (rule exI[of _ "?item\<lparr>verified := True, verificationNote := note_live_known\<rparr>"], rule exI[of _ m'])
          (simp add: loop_body_known_domain[where verify=verify, OF nn cu known v] True pushed_def)
    next
      case False
      show ?thesis
        by (rule exI[of _ "?item\<lparr>verificationNote := note_dead\<rparr>"], rule exI[of _ m'])
          (simp add: loop_body_known_domain[where verify=verify, OF nn cu known v] False pushed_def)
    qed
  next
    case unknown
    show ?thesis
    proof (cases b)
      case True
      show ?thesis
        by (rule exI[of _ "?item\<lparr>verified := True, verificationNote := note_live\<rparr>"], rule exI[of _ m'])
          (simp add: loop_body_unknown_domain[where verify=verify, OF nn cu unknown v] True pushed_def)
    next
      case False
      show ?thesis
        by (rule exI[of _ "?item\<lparr>verificationNote := note_fabricated\<rparr>"], rule exI[of _ m'])
          (simp add: loop_body_unknown_domain[where verify=verify, OF nn cu unknown v] False pushed_def)
    qed
  qed
qed

lemma classify_loop_trace:
  assumes tot: "\<And>u m. \<exists>b m'. verify u m = (Returned b, m')"
    and wf: "\<forall>it\<in>set its. well_formed it"
  shows "\<exists>finals n'.
           classify_loop URL Date_now verify U D city i its acc n =
             (Returned (fst acc @ filter verified finals, snd acc @ filter (\<lambda>x. \<not> verified x) finals), n') \<and>
           length finals = length its \<and>
           (\<forall>k<length its. \<exists>m m'.
              loop_body URL Date_now verify U D city (i + k) (its ! k) ([], []) m =
                (Returned (pushed (finals ! k)), m'))"
  using wf
proof (induction its arbitrary: i acc n)
  case Nil
  show ?case by (rule exI[of _ "[]"]) simp
next
  case (Cons it rest)
  from Cons.prems have wf_it: "well_formed it" and wf_rest: "\<forall>it\<in>set rest. well_formed it"
    by simp_all
  obtain x n1 where x: "loop_body URL Date_now verify U D city i it ([], []) n = (Returned (pushed x), n1)"
    using loop_body_single[where verify=verify, OF tot wf_it, of URL Date_now U D city i n] by auto
  let ?acc1 = "(fst acc @ fst (pushed x), snd acc @ snd (pushed x))"
  have step: "loop_body URL Date_now verify U D city i it acc n = (Returned ?acc1, n1)"
    by (subst loop_body_acc) (simp add: x)
  obtain finals n' where f:
    "classify_loop URL Date_now verify U D city (Suc i) rest ?acc1 n1 =
       (Returned (fst ?acc1 @ filter verified finals, snd ?acc1 @ filter (\<lambda>x. \<not> verified x) finals), n')"
    "length finals = length rest"
    "\<forall>k<length rest. \<exists>m m'.
       loop_body URL Date_now verify U D city (Suc i + k) (rest ! k) ([], []) m =
         (Returned (pushed (finals ! k)), m')"
    using Cons.IH[OF wf_rest, of "Suc i" ?acc1 n1] by blast
  have trace: "\<forall>k<length (it # rest). \<exists>m m'.
       loop_body URL Date_now verify U D city (i + k) ((it # rest) ! k) ([], []) m =
         (Returned (pushed ((x # finals) ! k)), m')"
  proof (intro allI impI)
    fix k assume k: "k < length (it # rest)"
    show "\<exists>m m'. loop_body URL Date_now verify U D city (i + k) ((it # rest) ! k) ([], []) m =
         (Returned (pushed ((x # finals) ! k)), m')"
    proof (cases k)
      case 0
      then show ?thesis using x by auto
    next
      case (Suc j)
      then have "j < length rest" using k by simp
      then show ?thesis using f(3) Suc by simp
    qed
  qed
  show ?case
    apply (rule exI[of _ "x # finals"], rule exI[of _ n'])
    using step f(1) f(2) trace by (simp add: pushed_def)
qed

lemma classify_loop_throws:
  assumes tot: "\<And>u m. \<exists>b m'. verify u m = (Returned b, m')"
    and bad: "\<exists>it\<in>set its. \<not> well_formed it"
  shows "\<exists>n'. classify_loop URL Date_now verify U D city i its acc n = (Thrown, n')"
  using bad
proof (induction its arbitrary: i acc n)
  case Nil
  then show ?case by simp
next
  case (Cons it rest)
  show ?case
  proof (cases "well_formed it")
    case False
    show ?thesis
      by (simp add: loop_body_throws[OF False])
  next
    case True
    with Cons.prems have bad_rest: "\<exists>it\<in>set rest. \<not> well_formed it" by auto
    obtain x n1 where x: "loop_body URL Date_now verify U D city i it ([], []) n = (Returned (pushed x), n1)"
      using loop_body_single[where verify=verify, OF tot True, of URL Date_now U D city i n] by auto
    let ?acc1 = "(fst acc @ fst (pushed x), snd acc @ snd (pushed x))"
    have step: "loop_body URL Date_now verify U D city i it acc n = (Returned ?acc1, n1)"
      by (subst loop_body_acc) (simp add: x)
    from Cons.IH[OF bad_rest, of "Suc i" ?acc1 n1] show ?thesis
      by (simp add: step)
  qed
qed

lemma cross_reference_result:
  assumes wf: "\<forall>it\<in>set parsedItems. well_formed it"
  shows "\<exists>finals n'.
     cross_reference URL Date_now (verifyUrl fetch) city cs parsedItems n =
       (Returned (filter verified finals, filter (\<lambda>x. \<not> verified x) finals,
          \<lparr>totalFound = length parsedItems,
           stats_verified = length (filter verified finals),
           stats_rejected = length (filter (\<lambda>x. \<not> verified x) finals)\<rparr>), n') \<and>
     length finals = length parsedItems \<and>
     (\<forall>k<length parsedItems. \<exists>m m'.
        loop_body URL Date_now (verifyUrl fetch) (build_realUrlSet URL cs {})
          (build_realDomainSet cs) city k (parsedItems ! k) ([], []) m =
          (Returned (pushed (finals ! k)), m'))"
proof -
  have tot: "\<And>u m. \<exists>b m'. verifyUrl fetch u m = (Returned b, m')"
    by (rule verifyUrl_returns)
  from classify_loop_trace[where verify="verifyUrl fetch", OF tot wf,
      of URL Date_now "build_realUrlSet URL cs {}" "build_realDomainSet cs" city 0
        "([], [])" n]
  obtain finals n' where f:
    "classify_loop URL Date_now (verifyUrl fetch) (build_realUrlSet URL cs {})
       (build_realDomainSet cs) city 0 parsedItems ([], []) n =
       (Returned (filter verified finals, filter (\<lambda>x. \<not> verified x) finals), n')"
    "length finals = length parsedItems"
    "\<forall>k<length parsedItems. \<exists>m m'.
        loop_body URL Date_now (verifyUrl fetch) (build_realUrlSet URL cs {})
          (build_realDomainSet cs) city k (parsedItems ! k) ([], []) m =
          (Returned (pushed (finals ! k)), m')"
    by auto
  show ?thesis
    by (rule exI[of _ finals], rule exI[of _ n'])
      (simp add: cross_reference_def f)
qed

lemma cross_reference_throws:
  assumes bad: "\<exists>it\<in>set parsedItems. \<not> well_formed it"
  shows "\<exists>n'. cross_reference URL Date_now (verifyUrl fetch) city cs parsedItems n = (Thrown, n')"
proof -
  have tot: "\<And>u m. \<exists>b m'. verifyUrl fetch u m = (Returned b, m')"
    by (rule verifyUrl_returns)
  from classify_loop_throws[where verify="verifyUrl fetch", OF tot bad,
      of URL Date_now "build_realUrlSet URL cs {}" "build_realDomainSet cs" city 0
        "([], [])" n]
  obtain n' where
    "classify_loop URL Date_now (verifyUrl fetch) (build_realUrlSet URL cs {})
       (build_realDomainSet cs) city 0 parsedItems ([], []) n = (Thrown, n')"
    by auto
  then show ?thesis
    by (simp add: cross_reference_def)
qed

lemma cross_reference_returned_wf:
  assumes "cross_reference URL Date_now (verifyUrl fetch) city cs parsedItems n =
             (Returned res, n')"
  shows "\<forall>it\<in>set parsedItems. well_formed it"
proof (rule ccontr)
  assume "\<not> (\<forall>it\<in>set parsedItems. well_formed it)"
  then have "\<exists>it\<in>set parsedItems. \<not> well_formed it" by simp
  from cross_reference_throws[OF this, of URL Date_now fetch city cs n] assms
  show False by auto
qed


lemma api_search_shape:
  "(parsed_candidates JSON_parse allContent = None \<and>
      ((\<exists>rp. fst (api_search URL Date_now fetch JSON_parse city allContent n) =
               empty_response rp (extractCitations URL allContent)) \<or>
       (\<exists>rp. fst (api_search URL Date_now fetch JSON_parse city allContent n) =
           \<lparr>items = citation_items Date_now city (extractCitations URL allContent),
            rawResponse = rp,
            verifiedSources = extractCitations URL allContent,
            stats = \<lparr>totalFound = length (citation_items Date_now city (extractCitations URL allContent)),
                     stats_verified = length (citation_items Date_now city (extractCitations URL allContent)),
                     stats_rejected = 0\<rparr>\<rparr>))) \<or>
   (\<exists>parsedItems.
       parsed_candidates JSON_parse allContent = Some parsedItems \<and>
       ((\<exists>rp0 rp1 v r st n'.
           cross_reference URL Date_now (verifyUrl fetch) city (extractCitations URL allContent)
             parsedItems n = (Returned (v, r, st), n') \<and>
           rejected_section r rp0 = (Returned (), rp1) \<and>
           fst (api_search URL Date_now fetch JSON_parse city allContent n) =
             \<lparr>items = v, rawResponse = str_join rp1 (newline @ newline),
              verifiedSources = extractCitations URL allContent, stats = st\<rparr>) \<or>
        (\<exists>rp0 rp1 v r st n'.
           cross_reference URL Date_now (verifyUrl fetch) city (extractCitations URL allContent)
             parsedItems n = (Returned (v, r, st), n') \<and>
           rejected_section r rp0 = (Thrown, rp1) \<and>
           fst (api_search URL Date_now fetch JSON_parse city allContent n) =
             empty_response rp1 (extractCitations URL allContent)) \<or>
        (\<exists>rp n'.
           cross_reference URL Date_now (verifyUrl fetch) city (extractCitations URL allContent)
             parsedItems n = (Thrown, n') \<and>
           fst (api_search URL Date_now fetch JSON_parse city allContent n) =
             empty_response rp (extractCitations URL allContent))))"
proof -
  let ?cs = "extractCitations URL allContent"
  let ?rp = "initial_rawParts (filter (\<lambda>b. block_type b = ''web_search_tool_result'') allContent)
      ?cs (map block_text (filter (\<lambda>b. block_type b = ''text'') allContent))"
  let ?resp = "fst (api_search URL Date_now fetch JSON_parse city allContent n)"
  show ?thesis
  proof (cases "str_includes (cleaned_text allContent) no_results_token")
    case True
    then have "parsed_candidates JSON_parse allContent = None" "?resp = empty_response ?rp ?cs"
      by (simp_all add: api_search_def parsed_candidates_def cleaned_text_def Let_def)
    then show ?thesis by blast
  next
    case no_token: False
    show ?thesis
    proof (cases "array_match (cleaned_text allContent)")
      case None
      with no_token have pc: "parsed_candidates JSON_parse allContent = None"
        by (simp add: parsed_candidates_def)
      from None no_token have
        "?resp = empty_response ?rp ?cs \<or>
         ?resp = \<lparr>items = citation_items Date_now city ?cs,
            rawResponse = str_join ?rp (newline @ newline),
            verifiedSources = ?cs,
            stats = \<lparr>totalFound = length (citation_items Date_now city ?cs),
                     stats_verified = length (citation_items Date_now city ?cs),
                     stats_rejected = 0\<rparr>\<rparr>"
        by (simp add: api_search_def cleaned_text_def Let_def)
      with pc show ?thesis by blast
    next
      case (Some m)
      show ?thesis
      proof (cases "JSON_parse m")
        case None
        with Some no_token have "parsed_candidates JSON_parse allContent = None"
          "?resp = empty_response ?rp ?cs"
          by (simp_all add: api_search_def parsed_candidates_def cleaned_text_def Let_def)
        then show ?thesis by blast
      next
        case parsed: (Some parsedItems)
        with Some no_token have pc: "parsed_candidates JSON_parse allContent = Some parsedItems"
          by (simp add: parsed_candidates_def)
        obtain out n' where x:
          "cross_reference URL Date_now (verifyUrl fetch) city ?cs parsedItems n = (out, n')"
          by (cases "cross_reference URL Date_now (verifyUrl fetch) city ?cs parsedItems n")
        show ?thesis
        proof (cases out)
          case Thrown
          with x parsed Some no_token have "?resp = empty_response ?rp ?cs"
            by (simp add: api_search_def cleaned_text_def Let_def)
          with pc x Thrown show ?thesis by blast
        next
          case (Returned res)
          obtain v r st where res: "res = (v, r, st)"
            by (cases res)
          obtain o2 rp1 where rs: "rejected_section r ?rp = (o2, rp1)"
            by (cases "rejected_section r ?rp")
          show ?thesis
          proof (cases o2)
            case Thrown
            with x parsed Some no_token Returned res rs have "?resp = empty_response rp1 ?cs"
              by (simp add: api_search_def cleaned_text_def Let_def)
            with pc x Returned res rs Thrown show ?thesis by blast
          next
            case r2: (Returned u)
            with x parsed Some no_token Returned res rs have
              "?resp = \<lparr>items = v, rawResponse = str_join rp1 (newline @ newline),
                  verifiedSources = ?cs, stats = st\<rparr>"
              by (simp add: api_search_def cleaned_text_def Let_def)
            moreover from rs r2 have "rejected_section r ?rp = (Returned (), rp1)"
              by simp
            ultimately show ?thesis
              using pc x Returned res by blast
          qed
        qed
      qed
    qed
  qed
qed



lemma loop_body_pushed:
  assumes "loop_body URL Date_now verify U D city i it ([], []) m = (Returned (pushed x), m')"
  shows "x = (new_item Date_now city i it)\<lparr>verified := verified x, verificationNote := verificationNote x\<rparr> \<and>
         (if verified x then verificationNote x \<in> {note_confirmed, note_live_known, note_live}
          else verificationNote x \<in> {note_no_url, note_dead, note_fabricated})"
  using assms
  by (auto simp: loop_body_def Let_def pushed_def
      split: if_splits prod.splits outcome.splits jsval.splits)



lemma citation_of_source:
  "cit_source (citation_of URL x) = extractDomain URL (cit_url (citation_of URL x))"
  by (simp add: citation_of_def)

lemma extractCitations_source:
  "c \<in> set (extractCitations URL content) \<Longrightarrow> cit_source c = extractDomain URL (cit_url c)"
proof (induction content)
  case Nil
  then show ?case by simp
next
  case (Cons b content)
  show ?case
  proof (cases "block_type b = ''web_search_tool_result''")
    case False
    with Cons show ?thesis by simp
  next
    case True
    show ?thesis
    proof (cases "block_content b")
      case None
      with True Cons show ?thesis by simp
    next
      case (Some results)
      with True Cons.prems
      have "c \<in> citation_of URL ` set results \<or> c \<in> set (extractCitations URL content)"
        by auto
      then show ?thesis
        using Cons.IH citation_of_source by blast
    qed
  qed
qed


lemma extractDomain_v2_eq: "extractDomain_v2 = extractDomain"
  by (intro ext) (simp add: extractDomain_v2_def extractDomain_def)

lemma new_item_v2_eq: "new_item_v2 = new_item"
  by (intro ext) (simp add: new_item_v2_def new_item_def)

lemma build_realUrlSet_v2_eq: "build_realUrlSet_v2 URL cs S = build_realUrlSet URL cs S"
  by (induction cs arbitrary: S) simp_all

lemma loop_body_v2_eq:
  "loop_body_v2 URL Date_now verify U D city i it acc n =
   loop_body URL Date_now verify U D city i it acc n"
  unfolding loop_body_v2_def loop_body_def extractDomain_v2_eq new_item_v2_eq ..

lemma classify_loop_v2_eq:
  "classify_loop_v2 URL Date_now verify U D city i its acc n =
   classify_loop URL Date_now verify U D city i its acc n"
proof (induction its arbitrary: i acc n)
  case Nil
  show ?case by simp
next
  case (Cons it rest)
  show ?case
    by (simp add: loop_body_v2_eq Cons.IH split: prod.splits outcome.splits)
qed

lemma citation_items_labels:
  assumes "x \<in> set (citation_items Date_now city cs)"
  shows "category x = JStr ''other'' \<and> severity x = JStr ''medium''"
  using assms by (auto simp: citation_items_def citation_item_def)

lemma cross_reference_finals:
  assumes wf: "\<forall>it\<in>set parsedItems. well_formed it"
  shows "\<exists>finals n'.
     cross_reference URL Date_now (verifyUrl fetch) city cs parsedItems n =
       (Returned (filter verified finals, filter (\<lambda>x. \<not> verified x) finals,
          \<lparr>totalFound = length parsedItems,
           stats_verified = length (filter verified finals),
           stats_rejected = length (filter (\<lambda>x. \<not> verified x) finals)\<rparr>), n') \<and>
     length finals = length parsedItems \<and>
     (\<forall>k<length parsedItems.
        finals ! k =
          (new_item Date_now city k (parsedItems ! k))
            \<lparr>verified := verified (finals ! k), verificationNote := verificationNote (finals ! k)\<rparr>)"
proof -
  let ?U = "build_realUrlSet URL cs {}" and ?D = "build_realDomainSet cs"
  obtain finals n' where f:
    "cross_reference URL Date_now (verifyUrl fetch) city cs parsedItems n =
       (Returned (filter verified finals, filter (\<lambda>x. \<not> verified x) finals,
          \<lparr>totalFound = length parsedItems,
           stats_verified = length (filter verified finals),
           stats_rejected = length (filter (\<lambda>x. \<not> verified x) finals)\<rparr>), n')"
    "length finals = length parsedItems"
    "\<forall>k<length parsedItems. \<exists>m m'.
        loop_body URL Date_now (verifyUrl fetch) ?U ?D city k (parsedItems ! k) ([], []) m =
          (Returned (pushed (finals ! k)), m')"
    using cross_reference_result[OF wf, of URL Date_now fetch city cs n] by auto
  note f3 = f(3)[rule_format]
  have each: "finals ! k =
          (new_item Date_now city k (parsedItems ! k))
            \<lparr>verified := verified (finals ! k), verificationNote := verificationNote (finals ! k)\<rparr>"
    if k: "k < length parsedItems" for k
  proof -
    from f3[OF k] obtain m m' where
      "loop_body URL Date_now (verifyUrl fetch) ?U ?D city k (parsedItems ! k) ([], []) m =
          (Returned (pushed (finals ! k)), m')"
      by (elim exE)
    from loop_body_pushed[OF this] show ?thesis by (rule conjunct1)
  qed
  show ?thesis
    apply (rule exI[of _ finals])
    apply (rule exI[of _ n'])
    apply (intro conjI allI impI)
    subgoal by (rule f(1))
    subgoal by (rule f(2))
    subgoal for k by (rule each)
    done
qed

lemma new_item_fields:
  assumes "x = (new_item Date_now city k it)\<lparr>verified := b, verificationNote := s\<rparr>"
  shows "category x = js_or (js_prop it ''category'') (JStr ''other'')"
    and "severity x = js_or (js_prop it ''severity'') (JStr ''medium'')"
    and "title x = js_or (js_prop it ''title'') (JStr [])"
    and "url x = claim_url it"
  using assms by (simp_all add: new_item_def claim_url_def)

lemma rejected_line_renders:
  assumes "js_to_string (title x) \<noteq> None" and "is_string (url x)"
  shows "rejected_line x \<noteq> None"
proof -
  from assms(2) obtain s where "url x = JStr s"
    by (cases "url x") simp_all
  with assms(1) show ?thesis
    by (auto simp: rejected_line_def split: option.splits)
qed

lemma push_rejected_returns:
  assumes "\<forall>x\<in>set r. rejected_line x \<noteq> None"
  shows "\<exists>rp1. push_rejected r rp = (Returned (), rp1)"
  using assms by (induction r arbitrary: rp) (auto split: option.splits)

lemma rejected_section_returns:
  assumes "\<forall>x\<in>set r. rejected_line x \<noteq> None"
  shows "\<exists>rp1. rejected_section r rp = (Returned (), rp1)"
  using push_rejected_returns[OF assms] by (simp add: rejected_section_def)


lemma scenario_B_eval:
  "cross_reference scenario_URL scenario_clock (verifyUrl no_network) ''Murfreesboro'' citations_A
     [candidate_of ''B'' []] [] =
   (Returned ([], [(new_item scenario_clock ''Murfreesboro'' 0 (candidate_of ''B'' []))
                     \<lparr>verificationNote := note_no_url\<rparr>],
      \<lparr>totalFound = 1, stats_verified = 0, stats_rejected = 1\<rparr>), [])"
  by code_simp

lemma scenario_A_eval:
  "cross_reference scenario_URL scenario_clock (verifyUrl no_network) ''Murfreesboro'' citations_A
     [candidate_of ''A'' ''https://example.com/a''] [] =
   (Returned ([(new_item scenario_clock ''Murfreesboro'' 0 (candidate_of ''A'' ''https://example.com/a''))
                 \<lparr>verified := True, verificationNote := note_confirmed\<rparr>], [],
      \<lparr>totalFound = 1, stats_verified = 1, stats_rejected = 0\<rparr>), [])"
  by code_simp


lemma narrated_usable:
  "filter (\<lambda>c. cit_url c \<noteq> [] \<and> cit_title c \<noteq> []) (extractCitations scenario_URL content_narrated) =
     [citation_A]"
  by code_simp

lemma narrated_text:
  "str_trim (strip_fences
     (str_join (map block_text (filter (\<lambda>b. block_type b = ''text'') content_narrated)) newline)) =
   ''Here is what I found.''"
  by code_simp

lemma narrated_facts:
  "\<not> str_includes ''Here is what I found.'' no_results_token"
  "array_match ''Here is what I found.'' = None"
  "extractCitations scenario_URL content_narrated \<noteq> []"
  "length (extractCitations scenario_URL content_narrated) = 2"
  "parsed_candidates parse_fails content_narrated = None"
  "items (fst (api_search scenario_URL scenario_clock no_network parse_fails ''Murfreesboro''
     content_narrated [])) = [citation_item scenario_clock ''Murfreesboro'' 0 citation_A]"
  by code_simp+

lemma labels_items:
  "items (fst (api_search scenario_URL scenario_clock no_network parse_labels ''Murfreesboro''
     content_labels [])) =
   [(new_item scenario_clock ''Murfreesboro'' 0 candidate_labels)
      \<lparr>verified := True, verificationNote := note_confirmed\<rparr>]"
  by code_simp

lemma labels_facts:
  "parsed_candidates parse_labels content_labels = Some [candidate_labels]"
  "\<forall>it\<in>set [candidate_labels]. well_formed it \<and> presentable it"
  "js_or (js_prop candidate_labels ''category'') (JStr ''other'') = JStr ''banana''"
  "js_or (js_prop candidate_labels ''severity'') (JStr ''medium'') = JStr ''extreme''"
  by code_simp+

lemma scenario_ABX_eval:
  "cross_reference scenario_URL scenario_clock (verifyUrl no_network) ''Murfreesboro'' citations_A
     candidates_ABX [] =
   (Returned
      ([(new_item scenario_clock ''Murfreesboro'' 0 (candidate_of ''A'' ''https://example.com/a''))
          \<lparr>verified := True, verificationNote := note_confirmed\<rparr>],
       [(new_item scenario_clock ''Murfreesboro'' 1 (candidate_of ''B'' []))
          \<lparr>verificationNote := note_no_url\<rparr>,
        (new_item scenario_clock ''Murfreesboro'' 2 (candidate_of ''X'' page_url))
          \<lparr>verificationNote := note_fabricated\<rparr>],
       \<lparr>totalFound = 3, stats_verified = 1, stats_rejected = 2\<rparr>),
    [(page_url, HEAD), (page_url, GET)])"
  by code_simp


lemma no_url_citation:
  "citation_of scenario_URL (search_result_of (Some ''Untitled'') None) \<in>
     set (extractCitations scenario_URL content_no_url)"
  "scenario_URL (cit_url (citation_of scenario_URL (search_result_of (Some ''Untitled'') None))) = None"
  "\<not> nullish (candidate_of ''C'' broken_url)"
  "claim_url (candidate_of ''C'' broken_url) = JStr broken_url"
  "broken_url \<noteq> []"
  "str_startsWith broken_url ''http''"
  "scenario_URL broken_url = None"
  "broken_url \<notin> build_realUrlSet scenario_URL (extractCitations scenario_URL content_no_url) {}"
  "verifyUrl no_network broken_url [] = (Returned False, [(broken_url, HEAD), (broken_url, GET)])"
  by code_simp+


section \<open>The claims\<close>

subsection \<open>C1\<close>



subsection \<open>C2\<close>




subsection \<open>C3\<close>




subsection \<open>C4\<close>



subsection \<open>C5\<close>

text \<open>
  The claim C5 as stated fails in two ways. A citation without a title is extracted but
  gives no item: one citation, no array in the text, and the counts are all zero. And a
  text with the no-results token answers with no item although a citation was extracted
  and the text holds no array.
\<close>

theorem fallback_counterexample:
  "length (extractCitations scenario_URL content_untitled) = 1 \<and>
   array_match (str_trim (strip_fences ''Here is what I found.'')) = None \<and>
   \<not> str_includes (str_trim (strip_fences ''Here is what I found.'')) no_results_token \<and>
   items (fst (api_search scenario_URL scenario_clock no_network parse_fails ''Murfreesboro''
     content_untitled [])) = [] \<and>
   stats (fst (api_search scenario_URL scenario_clock no_network parse_fails ''Murfreesboro''
     content_untitled [])) = \<lparr>totalFound = 0, stats_verified = 0, stats_rejected = 0\<rparr> \<and>
   length (extractCitations scenario_URL content_no_results) = 1 \<and>
   array_match (str_trim (strip_fences text_no_results)) = None \<and>
   items (fst (api_search scenario_URL scenario_clock no_network parse_fails ''Murfreesboro''
     content_no_results [])) = [] \<and>
   stats (fst (api_search scenario_URL scenario_clock no_network parse_fails ''Murfreesboro''
     content_no_results [])) = \<lparr>totalFound = 0, stats_verified = 0, stats_rejected = 0\<rparr>"
  by code_simp

text \<open>
  Claim C5, amended. When the cleaned text holds neither the no-results token nor a
  bracketed array and at least one citation was extracted, the response has one item per
  citation whose url and title are both non-empty, in the citations' order, with the
  citation's title and url, its snippet or the placeholder as summary, \<open>verified\<close> true
  and the note "Direct from web search results"; the counts are that number of
  citations, the same number and zero, and no request is made.
\<close>

theorem fallback_synthesis:
  assumes cleaned: "cleaned =
      str_trim (strip_fences
        (str_join (map block_text (filter (\<lambda>b. block_type b = ''text'') allContent)) newline))"
    and no_token: "\<not> str_includes cleaned no_results_token"
    and no_array: "array_match cleaned = None"
    and some: "extractCitations URL allContent \<noteq> []"
    and usable: "usable =
      filter (\<lambda>c. cit_url c \<noteq> [] \<and> cit_title c \<noteq> []) (extractCitations URL allContent)"
    and resp: "resp = api_search URL Date_now fetch JSON_parse city allContent n"
  shows "length (items (fst resp)) = length usable \<and>
         (\<forall>j<length usable.
            title (items (fst resp) ! j) = JStr (cit_title (usable ! j)) \<and>
            url (items (fst resp) ! j) = JStr (cit_url (usable ! j)) \<and>
            summary (items (fst resp) ! j) =
              JStr (if cit_snippet (usable ! j) = []
                    then ''Click source link to read the original article.''
                    else cit_snippet (usable ! j)) \<and>
            verified (items (fst resp) ! j) \<and>
            verificationNote (items (fst resp) ! j) = ''Direct from web search results'') \<and>
         stats (fst resp) =
           \<lparr>totalFound = length usable, stats_verified = length usable, stats_rejected = 0\<rparr> \<and>
         snd resp = n"
proof -
  have r: "resp =
      (\<lparr>items = citation_items Date_now city (extractCitations URL allContent),
        rawResponse =
          str_join
            (initial_rawParts
               (filter (\<lambda>b. block_type b = ''web_search_tool_result'') allContent)
               (extractCitations URL allContent)
               (map block_text (filter (\<lambda>b. block_type b = ''text'') allContent)))
            (newline @ newline),
        verifiedSources = extractCitations URL allContent,
        stats = \<lparr>totalFound = length (citation_items Date_now city (extractCitations URL allContent)),
                 stats_verified = length (citation_items Date_now city (extractCitations URL allContent)),
                 stats_rejected = 0\<rparr>\<rparr>, n)"
    unfolding resp api_search_def Let_def
    using no_token no_array some unfolding cleaned by simp
  have its: "citation_items Date_now city (extractCitations URL allContent) =
      map (\<lambda>(i, c). citation_item Date_now city i c) (enumerate 0 usable)"
    by (simp add: citation_items_def usable)
  have items_eq: "items (fst resp) =
      map (\<lambda>(i, c). citation_item Date_now city i c) (enumerate 0 usable)"
    by (simp add: r its)
  have len: "length (items (fst resp)) = length usable"
    by (simp add: items_eq)
  have item_j: "items (fst resp) ! j = citation_item Date_now city j (usable ! j)"
    if "j < length usable" for j
    unfolding items_eq using that by (simp add: nth_enumerate_eq)
  have st: "stats (fst resp) =
      \<lparr>totalFound = length usable, stats_verified = length usable, stats_rejected = 0\<rparr>"
    by (simp add: r its)
  have sn: "snd resp = n"
    by (simp add: r)
  show ?thesis
    using len st sn by (simp add: item_j citation_item_def)
qed

text \<open>
  Two citations are extracted, one of them without a title; the text narrates and holds
  no array. The response has the one item built from the citation A, counts 1, 1 and 0,
  and no request is made.
\<close>

theorem fallback_synthesis_witness:
  "length (extractCitations scenario_URL content_narrated) = 2 \<and>
   length (items (fst (api_search scenario_URL scenario_clock no_network parse_fails ''Murfreesboro''
     content_narrated []))) = 1 \<and>
   title (items (fst (api_search scenario_URL scenario_clock no_network parse_fails ''Murfreesboro''
     content_narrated [])) ! 0) = JStr ''A'' \<and>
   url (items (fst (api_search scenario_URL scenario_clock no_network parse_fails ''Murfreesboro''
     content_narrated [])) ! 0) = JStr ''https://example.com/a'' \<and>
   summary (items (fst (api_search scenario_URL scenario_clock no_network parse_fails ''Murfreesboro''
     content_narrated [])) ! 0) = JStr ''Click source link to read the original article.'' \<and>
   verified (items (fst (api_search scenario_URL scenario_clock no_network parse_fails ''Murfreesboro''
     content_narrated [])) ! 0) \<and>
   stats (fst (api_search scenario_URL scenario_clock no_network parse_fails ''Murfreesboro''
     content_narrated [])) = \<lparr>totalFound = 1, stats_verified = 1, stats_rejected = 0\<rparr> \<and>
   snd (api_search scenario_URL scenario_clock no_network parse_fails ''Murfreesboro''
     content_narrated []) = []"
  using fallback_synthesis[OF narrated_text[symmetric] narrated_facts(1) narrated_facts(2)
      narrated_facts(3) narrated_usable[symmetric] refl,
      where Date_now=scenario_clock and fetch=no_network and JSON_parse=parse_fails
        and city="''Murfreesboro''" and n="[]"]
    narrated_facts(4)
  by (simp add: citation_A_def)

subsection \<open>C6\<close>

text \<open>
  Claim C6. \<^verbatim>\<open>replace('www.', '')\<close> removes the first occurrence of \<^verbatim>\<open>www.\<close> wherever it
  stands in the hostname. For \<^verbatim>\<open>https://awww.example.com/\<close> the domain comes out as
  \<^verbatim>\<open>aexample.com\<close>, although the hostname has no leading \<^verbatim>\<open>www.\<close> to strip.
\<close>

theorem extractDomain_strips_inner_www:
  "extractDomain scenario_URL ''https://awww.example.com/'' = ''aexample.com''"
  by code_simp

subsection \<open>C7\<close>

text \<open>
  The claim C7 as stated fails on a candidate that is confirmed by its url and carries the
  category \<^verbatim>\<open>banana\<close> and the severity \<^verbatim>\<open>extreme\<close>: the emitted item carries both,
  and neither is in the vocabulary.
\<close>

theorem labels_counterexample:
  "map category (items (fst (api_search scenario_URL scenario_clock no_network parse_labels
     ''Murfreesboro'' content_labels []))) = [JStr ''banana''] \<and>
   ''banana'' \<notin> set category_vocabulary \<and>
   map severity (items (fst (api_search scenario_URL scenario_clock no_network parse_labels
     ''Murfreesboro'' content_labels []))) = [JStr ''extreme''] \<and>
   ''extreme'' \<notin> set severity_levels"
  by code_simp

text \<open>
  Claim C7, amended. The handler never compares \<^verbatim>\<open>category\<close> or \<^verbatim>\<open>severity\<close> with a
  vocabulary. Every item of a response either is built from a citation, which happens
  only when no candidate list was parsed, and has category \<^verbatim>\<open>other\<close> and severity
  \<^verbatim>\<open>medium\<close>; or it is the item that the loop built from the candidate at some index of
  the parsed list and accepted, and its category and severity are the values this very
  candidate holds under these names, of whatever type and unchecked, each replaced by its
  default when falsy. When every parsed candidate is well formed and presentable, the
  items of the response are exactly the accepted ones among the items built from the
  candidates, one per candidate and in their order, each with the labels of its own
  candidate.
\<close>

theorem labels_pass_through:
  "(\<forall>x\<in>set (items (fst (api_search URL Date_now fetch JSON_parse city allContent n))).
      (parsed_candidates JSON_parse allContent = None \<and>
       category x = JStr ''other'' \<and> severity x = JStr ''medium'') \<or>
      (\<exists>parsedItems k.
         parsed_candidates JSON_parse allContent = Some parsedItems \<and>
         k < length parsedItems \<and>
         x = (new_item Date_now city k (parsedItems ! k))
               \<lparr>verified := True, verificationNote := verificationNote x\<rparr> \<and>
         category x = js_or (js_prop (parsedItems ! k) ''category'') (JStr ''other'') \<and>
         severity x = js_or (js_prop (parsedItems ! k) ''severity'') (JStr ''medium''))) \<and>
   (\<forall>parsedItems.
      parsed_candidates JSON_parse allContent = Some parsedItems \<and>
      (\<forall>it\<in>set parsedItems. well_formed it \<and> presentable it) \<longrightarrow>
      (\<exists>finals.
         length finals = length parsedItems \<and>
         items (fst (api_search URL Date_now fetch JSON_parse city allContent n)) =
           filter verified finals \<and>
         (\<forall>k<length parsedItems.
            finals ! k =
              (new_item Date_now city k (parsedItems ! k))
                \<lparr>verified := verified (finals ! k),
                 verificationNote := verificationNote (finals ! k)\<rparr> \<and>
            category (finals ! k) = js_or (js_prop (parsedItems ! k) ''category'') (JStr ''other'') \<and>
            severity (finals ! k) =
              js_or (js_prop (parsedItems ! k) ''severity'') (JStr ''medium''))))"
proof (intro conjI allI impI ballI)
  fix x
  let ?resp = "fst (api_search URL Date_now fetch JSON_parse city allContent n)"
  let ?cs = "extractCitations URL allContent"
  assume x: "x \<in> set (items ?resp)"
  consider (empty) rp where "?resp = empty_response rp ?cs"
    | (fallback) rp where "parsed_candidates JSON_parse allContent = None"
        "?resp =
           \<lparr>items = citation_items Date_now city ?cs, rawResponse = rp, verifiedSources = ?cs,
            stats = \<lparr>totalFound = length (citation_items Date_now city ?cs),
                     stats_verified = length (citation_items Date_now city ?cs),
                     stats_rejected = 0\<rparr>\<rparr>"
    | (xref) rp parsedItems v r st n' where
        "parsed_candidates JSON_parse allContent = Some parsedItems"
        "cross_reference URL Date_now (verifyUrl fetch) city ?cs parsedItems n = (Returned (v, r, st), n')"
        "?resp = \<lparr>items = v, rawResponse = rp, verifiedSources = ?cs, stats = st\<rparr>"
    using api_search_shape[of JSON_parse allContent URL Date_now fetch city n]
    by (elim disjE conjE exE) blast+
  then show "(parsed_candidates JSON_parse allContent = None \<and>
       category x = JStr ''other'' \<and> severity x = JStr ''medium'') \<or>
      (\<exists>parsedItems k.
         parsed_candidates JSON_parse allContent = Some parsedItems \<and>
         k < length parsedItems \<and>
         x = (new_item Date_now city k (parsedItems ! k))
               \<lparr>verified := True, verificationNote := verificationNote x\<rparr> \<and>
         category x = js_or (js_prop (parsedItems ! k) ''category'') (JStr ''other'') \<and>
         severity x = js_or (js_prop (parsedItems ! k) ''severity'') (JStr ''medium''))"
  proof cases
    case empty
    with x show ?thesis by (simp add: empty_response_def)
  next
    case fallback
    with x have "x \<in> set (citation_items Date_now city ?cs)" by simp
    from citation_items_labels[OF this] fallback(1) show ?thesis by simp
  next
    case xref
    from cross_reference_returned_wf[OF xref(2)]
    have wf: "\<forall>it\<in>set parsedItems. well_formed it" .
    obtain finals n2 where f:
      "cross_reference URL Date_now (verifyUrl fetch) city ?cs parsedItems n =
         (Returned (filter verified finals, filter (\<lambda>x. \<not> verified x) finals,
            \<lparr>totalFound = length parsedItems,
             stats_verified = length (filter verified finals),
             stats_rejected = length (filter (\<lambda>x. \<not> verified x) finals)\<rparr>), n2)"
      "length finals = length parsedItems"
      "\<forall>k<length parsedItems.
          finals ! k =
            (new_item Date_now city k (parsedItems ! k))
              \<lparr>verified := verified (finals ! k), verificationNote := verificationNote (finals ! k)\<rparr>"
      using cross_reference_finals[OF wf, of URL Date_now fetch city ?cs n] by auto
    from f(1) xref(2) have v: "v = filter verified finals" by simp
    with x xref(3) have "x \<in> set finals" and vx: "verified x" by simp_all
    then obtain k where k: "k < length finals" and xk: "finals ! k = x"
      by (auto simp: in_set_conv_nth)
    from k f(2) have k': "k < length parsedItems" by simp
    from f(3)[rule_format, OF k'] xk vx
    have eq: "x = (new_item Date_now city k (parsedItems ! k))
               \<lparr>verified := True, verificationNote := verificationNote x\<rparr>"
      by simp
    note new_item_fields(1)[OF eq] new_item_fields(2)[OF eq]
    with xref(1) k' eq show ?thesis by blast
  qed
next
  fix parsedItems
  let ?resp = "fst (api_search URL Date_now fetch JSON_parse city allContent n)"
  let ?cs = "extractCitations URL allContent"
  assume a: "parsed_candidates JSON_parse allContent = Some parsedItems \<and>
      (\<forall>it\<in>set parsedItems. well_formed it \<and> presentable it)"
  then have pc: "parsed_candidates JSON_parse allContent = Some parsedItems"
    and wf: "\<forall>it\<in>set parsedItems. well_formed it"
    and pr: "\<forall>it\<in>set parsedItems. presentable it"
    by simp_all
  obtain finals n' where f:
    "cross_reference URL Date_now (verifyUrl fetch) city ?cs parsedItems n =
       (Returned (filter verified finals, filter (\<lambda>x. \<not> verified x) finals,
          \<lparr>totalFound = length parsedItems,
           stats_verified = length (filter verified finals),
           stats_rejected = length (filter (\<lambda>x. \<not> verified x) finals)\<rparr>), n')"
    "length finals = length parsedItems"
    "\<forall>k<length parsedItems.
        finals ! k =
          (new_item Date_now city k (parsedItems ! k))
            \<lparr>verified := verified (finals ! k), verificationNote := verificationNote (finals ! k)\<rparr>"
    using cross_reference_finals[OF wf, of URL Date_now fetch city ?cs n] by auto
  note each = f(3)[rule_format]
  have lines: "\<forall>x\<in>set (filter (\<lambda>x. \<not> verified x) finals). rejected_line x \<noteq> None"
  proof
    fix x
    assume "x \<in> set (filter (\<lambda>x. \<not> verified x) finals)"
    then have "x \<in> set finals" by simp
    then obtain k where k: "k < length finals" and xk: "finals ! k = x"
      by (auto simp: in_set_conv_nth)
    from k f(2) have k': "k < length parsedItems" by simp
    from each[OF k'] xk have eq: "x = (new_item Date_now city k (parsedItems ! k))
        \<lparr>verified := verified x, verificationNote := verificationNote x\<rparr>"
      by simp
    from k' have mem: "parsedItems ! k \<in> set parsedItems" by simp
    from pr mem have "presentable (parsedItems ! k)" by blast
    then have t: "js_to_string (title x) \<noteq> None"
      unfolding new_item_fields(3)[OF eq] presentable_def .
    from wf mem have "well_formed (parsedItems ! k)" by blast
    then have u: "is_string (url x)"
      unfolding new_item_fields(4)[OF eq] well_formed_def by simp
    from rejected_line_renders[OF t u] show "rejected_line x \<noteq> None" .
  qed
  have no_throw: "rejected_section (filter (\<lambda>x. \<not> verified x) finals) rp0 \<noteq> (Thrown, rp1)" for rp0 rp1
    using rejected_section_returns[OF lines, of rp0] by auto
  from api_search_shape[of JSON_parse allContent URL Date_now fetch city n] pc f(1) no_throw
  have its: "items ?resp = filter verified finals"
    by auto
  have labels: "category (finals ! k) = js_or (js_prop (parsedItems ! k) ''category'') (JStr ''other'') \<and>
      severity (finals ! k) = js_or (js_prop (parsedItems ! k) ''severity'') (JStr ''medium'')"
    if k: "k < length parsedItems" for k
    using new_item_fields(1)[OF each[OF k]] new_item_fields(2)[OF each[OF k]] by simp
  show "\<exists>finals.
         length finals = length parsedItems \<and>
         items ?resp = filter verified finals \<and>
         (\<forall>k<length parsedItems.
            finals ! k =
              (new_item Date_now city k (parsedItems ! k))
                \<lparr>verified := verified (finals ! k),
                 verificationNote := verificationNote (finals ! k)\<rparr> \<and>
            category (finals ! k) = js_or (js_prop (parsedItems ! k) ''category'') (JStr ''other'') \<and>
            severity (finals ! k) =
              js_or (js_prop (parsedItems ! k) ''severity'') (JStr ''medium''))"
    apply (rule exI[of _ finals])
    apply (intro conjI allI impI)
    subgoal by (rule f(2))
    subgoal by (rule its)
    subgoal for k by (rule each)
    subgoal for k using labels[of k] by blast
    subgoal for k using labels[of k] by blast
    done
qed

text \<open>
  The same response: every candidate is well formed and presentable, and the one item
  carries \<^verbatim>\<open>banana\<close> and \<^verbatim>\<open>extreme\<close>, the labels of its candidate. The item built from
  the citation A, in the response to a text without an array, has \<^verbatim>\<open>other\<close> and
  \<^verbatim>\<open>medium\<close>.
\<close>

theorem labels_pass_through_witness:
  "parsed_candidates parse_labels content_labels = Some [candidate_labels] \<and>
   list_all (\<lambda>it. well_formed it \<and> presentable it) [candidate_labels] \<and>
   (\<exists>finals.
      length finals = length [candidate_labels] \<and>
      items (fst (api_search scenario_URL scenario_clock no_network parse_labels ''Murfreesboro''
        content_labels [])) = filter verified finals \<and>
      (\<forall>k<length [candidate_labels].
         finals ! k =
           (new_item scenario_clock ''Murfreesboro'' k ([candidate_labels] ! k))
             \<lparr>verified := verified (finals ! k),
              verificationNote := verificationNote (finals ! k)\<rparr> \<and>
         category (finals ! k) = js_or (js_prop ([candidate_labels] ! k) ''category'') (JStr ''other'') \<and>
         severity (finals ! k) =
           js_or (js_prop ([candidate_labels] ! k) ''severity'') (JStr ''medium''))) \<and>
   items (fst (api_search scenario_URL scenario_clock no_network parse_labels ''Murfreesboro''
     content_labels [])) =
     [(new_item scenario_clock ''Murfreesboro'' 0 candidate_labels)
        \<lparr>verified := True, verificationNote := note_confirmed\<rparr>] \<and>
   category ((new_item scenario_clock ''Murfreesboro'' 0 candidate_labels)
        \<lparr>verified := True, verificationNote := note_confirmed\<rparr>) = JStr ''banana'' \<and>
   severity ((new_item scenario_clock ''Murfreesboro'' 0 candidate_labels)
        \<lparr>verified := True, verificationNote := note_confirmed\<rparr>) = JStr ''extreme'' \<and>
   parsed_candidates parse_fails content_narrated = None \<and>
   items (fst (api_search scenario_URL scenario_clock no_network parse_fails ''Murfreesboro''
     content_narrated [])) = [citation_item scenario_clock ''Murfreesboro'' 0 citation_A] \<and>
   category (citation_item scenario_clock ''Murfreesboro'' 0 citation_A) = JStr ''other'' \<and>
   severity (citation_item scenario_clock ''Murfreesboro'' 0 citation_A) = JStr ''medium''"
proof -
  let ?X = "(new_item scenario_clock ''Murfreesboro'' 0 candidate_labels)
        \<lparr>verified := True, verificationNote := note_confirmed\<rparr>"
  let ?C = "citation_item scenario_clock ''Murfreesboro'' 0 citation_A"
  note t = labels_pass_through[where URL=scenario_URL and Date_now=scenario_clock
      and fetch=no_network and city="''Murfreesboro''" and n="[]"]
  note t2 = t[where JSON_parse=parse_labels and allContent=content_labels, THEN conjunct2,
      rule_format, of "[candidate_labels]"]
  have c1: "\<exists>finals.
      length finals = length [candidate_labels] \<and>
      items (fst (api_search scenario_URL scenario_clock no_network parse_labels ''Murfreesboro''
        content_labels [])) = filter verified finals \<and>
      (\<forall>k<length [candidate_labels].
         finals ! k =
           (new_item scenario_clock ''Murfreesboro'' k ([candidate_labels] ! k))
             \<lparr>verified := verified (finals ! k),
              verificationNote := verificationNote (finals ! k)\<rparr> \<and>
         category (finals ! k) = js_or (js_prop ([candidate_labels] ! k) ''category'') (JStr ''other'') \<and>
         severity (finals ! k) =
           js_or (js_prop ([candidate_labels] ! k) ''severity'') (JStr ''medium''))"
    using t2 labels_facts(1) labels_facts(2) by blast
  have mx: "?X \<in> set (items (fst (api_search scenario_URL scenario_clock no_network parse_labels
      ''Murfreesboro'' content_labels [])))"
    by (simp add: labels_items)
  from t[where JSON_parse=parse_labels and allContent=content_labels, THEN conjunct1,
      rule_format, OF mx] labels_facts(1) labels_facts(3) labels_facts(4)
  have c2: "category ?X = JStr ''banana'' \<and> severity ?X = JStr ''extreme''"
    by auto
  have mc: "?C \<in> set (items (fst (api_search scenario_URL scenario_clock no_network parse_fails
      ''Murfreesboro'' content_narrated [])))"
    by (simp add: narrated_facts(6))
  from t[where JSON_parse=parse_fails and allContent=content_narrated, THEN conjunct1,
      rule_format, OF mc] narrated_facts(5)
  have c3: "category ?C = JStr ''other'' \<and> severity ?C = JStr ''medium''"
    by simp
  have wf: "list_all (\<lambda>it. well_formed it \<and> presentable it) [candidate_labels]"
    using labels_facts(2) by (simp add: list_all_iff)
  show ?thesis
    by (intro conjI)
      (rule labels_facts(1), rule wf, rule c1, rule labels_items,
        rule c2[THEN conjunct1], rule c2[THEN conjunct2], rule narrated_facts(5),
        rule narrated_facts(6), rule c3[THEN conjunct1], rule c3[THEN conjunct2])
qed

subsection \<open>C8\<close>




subsection \<open>C9\<close>

text \<open>
  Claim C9. For every citation list, candidate list, clock and probe (a fixed assignment
  of outcomes to urls is the probe \<open>\<lambda>u n. (Returned (p u), n)\<close>), the cross-reference of
  version 2.0 and that of version 3.0 return the same accepted list, the same rejected
  list with the same notes, the same counts and the same network, or both throw.
\<close>

theorem cross_reference_versions_agree:
  "cross_reference_v2 URL Date_now verify city realCitations parsedItems n =
   cross_reference URL Date_now verify city realCitations parsedItems n"
  unfolding cross_reference_v2_def cross_reference_def build_realDomainSet_def
    build_realUrlSet_v2_eq classify_loop_v2_eq ..

text \<open>
  The same three candidates through the cross-reference of version 2.0.
\<close>

theorem cross_reference_versions_agree_witness:
  "cross_reference_v2 scenario_URL scenario_clock (verifyUrl no_network) ''Murfreesboro'' citations_A
     candidates_ABX [] =
   (Returned
      ([(new_item scenario_clock ''Murfreesboro'' 0 (candidate_of ''A'' ''https://example.com/a''))
          \<lparr>verified := True, verificationNote := note_confirmed\<rparr>],
       [(new_item scenario_clock ''Murfreesboro'' 1 (candidate_of ''B'' []))
          \<lparr>verificationNote := note_no_url\<rparr>,
        (new_item scenario_clock ''Murfreesboro'' 2 (candidate_of ''X'' page_url))
          \<lparr>verificationNote := note_fabricated\<rparr>],
       \<lparr>totalFound = 3, stats_verified = 1, stats_rejected = 2\<rparr>),
    [(page_url, HEAD), (page_url, GET)])"
  using cross_reference_versions_agree[of scenario_URL scenario_clock "verifyUrl no_network"
      "''Murfreesboro''" citations_A candidates_ABX "[]"]
  by (simp only: scenario_ABX_eval)

subsection \<open>C10\<close>

text \<open>
  The claim C10 as stated fails where the lookup accepts first. The citation's url
  \<^verbatim>\<open>http://exa mple.com/a\<close> does not parse, so \<^verbatim>\<open>Unknown\<close> is a citation domain; the
  candidate repeats that url, which starts with \<^verbatim>\<open>http\<close> and does not parse. A probe
  of it would fail, but none is made: the raw url is in the lookup set and the candidate
  is accepted with the note "Confirmed".
\<close>

theorem unknown_sentinel_counterexample:
  "scenario_URL broken_url = None \<and>
   str_startsWith broken_url ''http'' \<and>
   ''Unknown'' \<in> build_realDomainSet citations_broken \<and>
   fst (verifyUrl no_network broken_url []) = Returned False \<and>
   cross_reference scenario_URL scenario_clock (verifyUrl no_network) ''Murfreesboro'' citations_broken
     [candidate_of ''C'' broken_url] [] =
   (Returned
      ([(new_item scenario_clock ''Murfreesboro'' 0 (candidate_of ''C'' broken_url))
          \<lparr>verified := True, verificationNote := note_confirmed\<rparr>],
       [], \<lparr>totalFound = 1, stats_verified = 1, stats_rejected = 0\<rparr>), [])"
  by code_simp

text \<open>
  Claim C10, amended with the lookup that precedes the domain test. When a citation's
  url does not parse, \<^verbatim>\<open>Unknown\<close> is in the set of citation domains. A candidate whose url
  is a string that starts with \<^verbatim>\<open>http\<close>, does not parse and is not in the lookup set
  then takes the known-domain branch: it is accepted with the note "URL responds (domain
  from search results)" when the probe returns true and rejected with the note "URL does
  not respond" when it returns false.
\<close>

theorem unknown_sentinel_known_path:
  assumes c: "c \<in> set (extractCitations URL allContent)"
    and c_bad: "URL (cit_url c) = None"
    and nn: "\<not> nullish it"
    and cu: "claim_url it = JStr u"
    and scheme: "u \<noteq> []" "str_startsWith u ''http''"
    and u_bad: "URL u = None"
    and miss: "u \<notin> build_realUrlSet URL (extractCitations URL allContent) {}"
  shows "''Unknown'' \<in> build_realDomainSet (extractCitations URL allContent) \<and>
         (\<forall>verify i acc m b m'.
            verify u (m::'n) = (Returned b, m') \<longrightarrow>
            loop_body URL Date_now verify
                (build_realUrlSet URL (extractCitations URL allContent) {})
                (build_realDomainSet (extractCitations URL allContent)) city i it acc m =
              (if b
               then (Returned
                       (fst acc @
                          [(new_item Date_now city i it)
                             \<lparr>verified := True, verificationNote := note_live_known\<rparr>],
                        snd acc), m')
               else (Returned
                       (fst acc,
                        snd acc @ [(new_item Date_now city i it)\<lparr>verificationNote := note_dead\<rparr>]),
                     m')))"
proof (rule conjI)
  let ?cs = "extractCitations URL allContent"
  have "cit_source c = ''Unknown''"
    using extractCitations_source[OF c] c_bad by (simp add: extractDomain_def)
  then show dom: "''Unknown'' \<in> build_realDomainSet ?cs"
    using c by (force simp: build_realDomainSet_def)
  have key: "url_key URL u \<notin> build_realUrlSet URL ?cs {}"
    using u_bad miss by (simp add: url_key_def)
  have ed: "extractDomain URL u \<in> build_realDomainSet ?cs"
    using u_bad dom by (simp add: extractDomain_def)
  show "\<forall>verify i acc m b m'.
            verify u (m::'n) = (Returned b, m') \<longrightarrow>
            loop_body URL Date_now verify (build_realUrlSet URL ?cs {})
                (build_realDomainSet ?cs) city i it acc m =
              (if b
               then (Returned
                       (fst acc @
                          [(new_item Date_now city i it)
                             \<lparr>verified := True, verificationNote := note_live_known\<rparr>],
                        snd acc), m')
               else (Returned
                       (fst acc,
                        snd acc @ [(new_item Date_now city i it)\<lparr>verificationNote := note_dead\<rparr>]),
                     m'))"
  proof (intro allI impI)
    fix verify :: "string \<Rightarrow> 'n \<Rightarrow> bool outcome \<times> 'n" and i acc m b m'
    assume v: "verify u m = (Returned b, m')"
    show "loop_body URL Date_now verify (build_realUrlSet URL ?cs {})
                (build_realDomainSet ?cs) city i it acc m =
              (if b
               then (Returned
                       (fst acc @
                          [(new_item Date_now city i it)
                             \<lparr>verified := True, verificationNote := note_live_known\<rparr>],
                        snd acc), m')
               else (Returned
                       (fst acc,
                        snd acc @ [(new_item Date_now city i it)\<lparr>verificationNote := note_dead\<rparr>]),
                     m'))"
      by (rule loop_body_known_domain[where verify=verify, OF nn cu scheme key miss ed v])
  qed
qed

text \<open>
  A citation without a url has the domain \<^verbatim>\<open>Unknown\<close>. The candidate's url starts with
  \<^verbatim>\<open>http\<close>, does not parse and is not in the lookup set; both requests of its probe are
  rejected, and it is rejected with the note "URL does not respond".
\<close>

theorem unknown_sentinel_known_path_witness:
  "scenario_URL (cit_url (citation_of scenario_URL (search_result_of (Some ''Untitled'') None))) = None \<and>
   scenario_URL broken_url = None \<and>
   str_startsWith broken_url ''http'' \<and>
   broken_url \<notin> build_realUrlSet scenario_URL (extractCitations scenario_URL content_no_url) {} \<and>
   ''Unknown'' \<in> build_realDomainSet (extractCitations scenario_URL content_no_url) \<and>
   loop_body scenario_URL scenario_clock (verifyUrl no_network)
       (build_realUrlSet scenario_URL (extractCitations scenario_URL content_no_url) {})
       (build_realDomainSet (extractCitations scenario_URL content_no_url)) ''Murfreesboro'' 0
       (candidate_of ''C'' broken_url) ([], []) [] =
     (Returned
        ([], [(new_item scenario_clock ''Murfreesboro'' 0 (candidate_of ''C'' broken_url))
                \<lparr>verificationNote := note_dead\<rparr>]),
      [(broken_url, HEAD), (broken_url, GET)])"
proof -
  note t = unknown_sentinel_known_path[OF no_url_citation(1) no_url_citation(2)
      no_url_citation(3) no_url_citation(4) no_url_citation(5) no_url_citation(6)
      no_url_citation(7) no_url_citation(8),
      where Date_now=scenario_clock and city="''Murfreesboro''"]
  from t[THEN conjunct2, rule_format, where verify="verifyUrl no_network" and m="[]"
      and b=False and m'="[(broken_url, HEAD), (broken_url, GET)]" and i=0 and acc="([], [])",
      OF no_url_citation(9)]
  have l: "loop_body scenario_URL scenario_clock (verifyUrl no_network)
       (build_realUrlSet scenario_URL (extractCitations scenario_URL content_no_url) {})
       (build_realDomainSet (extractCitations scenario_URL content_no_url)) ''Murfreesboro'' 0
       (candidate_of ''C'' broken_url) ([], []) [] =
     (Returned
        ([], [(new_item scenario_clock ''Murfreesboro'' 0 (candidate_of ''C'' broken_url))
                \<lparr>verificationNote := note_dead\<rparr>]),
      [(broken_url, HEAD), (broken_url, GET)])"
    by simp
  show ?thesis
    by (intro conjI)
      (rule no_url_citation(2), rule no_url_citation(7), rule no_url_citation(6),
        rule no_url_citation(8), rule t[THEN conjunct1], rule l)
qed

end
